theory Spec2Isabelle
  imports Main
begin

section \<open>JavaScript values, errors and strings\<close>

text \<open>
  The table helpers translate between the grid widget's change events and the query
  state of a data collection. The values they move around are plain JavaScript values:
  a \<^verbatim>\<open>Condition\<close>'s \<^verbatim>\<open>value\<close> has type \<^verbatim>\<open>any\<close>, and the result of \<^verbatim>\<open>JSON.parse\<close> is an
  arbitrary JSON tree. Values are finite trees (no cycles, no functions), so
  \<^verbatim>\<open>JSON.stringify\<close> of an object built from them returns a string. An object is a list
  of key/value pairs in insertion order, without repeated keys; a property read returns
  the pair with that key. The helpers never compute with a number inside such a value;
  there it is an integer. The numbers they do compute with, the page size and the
  current page, are JavaScript numbers of their own type (see \<open>NumberOps\<close> below).
\<close>

datatype jsval =
    JUndefined
  | JNull
  | JBool bool
  | JNum int
  | JStr string
  | JArr "jsval list"
  | JObj "(string \<times> jsval) list"

text \<open>
  Every \<^verbatim>\<open>throw\<close> of the source and every exception of a built-in it calls is a value:
  \<open>Error msg\<close> is \<^verbatim>\<open>new Error(msg)\<close>, \<open>TypeError\<close> is what destructuring
  \<^verbatim>\<open>null\<close> or calling a method of \<^verbatim>\<open>undefined\<close> raises, \<open>SyntaxError\<close> is what
  \<^verbatim>\<open>JSON.parse\<close> raises on malformed text.
\<close>

datatype error = Error string | TypeError | SyntaxError

text \<open>
  \<^verbatim>\<open>const {a, b} = v\<close>: destructuring \<^verbatim>\<open>null\<close> or \<^verbatim>\<open>undefined\<close> throws; on an
  object it reads the two properties (a missing one is \<^verbatim>\<open>undefined\<close>); on any other
  value the properties read here (\<^verbatim>\<open>operator\<close>, \<^verbatim>\<open>value\<close>, \<^verbatim>\<open>minDate\<close>, \<^verbatim>\<open>maxDate\<close>)
  do not exist, so both are \<^verbatim>\<open>undefined\<close>.
\<close>

fun getProp :: "jsval \<Rightarrow> string \<Rightarrow> jsval" where
  "getProp (JObj kvs) k = (case map_of kvs k of None \<Rightarrow> JUndefined | Some v \<Rightarrow> v)"
| "getProp _ k = JUndefined"

fun destructure2 :: "jsval \<Rightarrow> string \<Rightarrow> string \<Rightarrow> error + (jsval \<times> jsval)" where
  "destructure2 JUndefined a b = Inl TypeError"
| "destructure2 JNull a b = Inl TypeError"
| "destructure2 v a b = Inr (getProp v a, getProp v b)"

text \<open>
  Strings are character lists. \<^verbatim>\<open>s.endsWith(t)\<close>, \<^verbatim>\<open>s.indexOf(c)\<close> for a one-character
  search string (the position of the first occurrence, \<open>-1\<close> when there is none) and
  \<^verbatim>\<open>s.substring(a, b)\<close> (both indices clamped to the string, swapped when \<open>a > b\<close>).
\<close>

definition endsWith :: "string \<Rightarrow> string \<Rightarrow> bool" where
  "endsWith s t = (length t \<le> length s \<and> drop (length s - length t) s = t)"

fun indexOf :: "string \<Rightarrow> char \<Rightarrow> int" where
  "indexOf [] c = - 1"
| "indexOf (x # xs) c =
     (if x = c then 0
      else (let i = indexOf xs c in if i < 0 then - 1 else i + 1))"

definition substring :: "string \<Rightarrow> int \<Rightarrow> int \<Rightarrow> string" where
  "substring s a b =
     (let n = int (length s);
          a' = max 0 (min a n);
          b' = max 0 (min b n);
          lo = min a' b';
          hi = max a' b'
      in take (nat (hi - lo)) (drop (nat lo) s))"

text \<open>
  The page size, the current page, the limit and the offset are JavaScript numbers, that
  is IEEE doubles. Their type is a type variable, and what the language does with them
  is a parameter: \<open>num_isZero\<close> holds of the two zeros, \<open>num_isNaN\<close> of \<^verbatim>\<open>NaN\<close>,
  \<open>num_times\<close> and \<open>num_minus\<close> are \<^verbatim>\<open>*\<close> and \<^verbatim>\<open>-\<close> with their rounding, \<open>num_one\<close> is the
  literal \<^verbatim>\<open>1\<close>. A number is truthy when it is neither zero nor \<^verbatim>\<open>NaN\<close>.
\<close>

record 'n NumberOps =
  num_isZero :: "'n \<Rightarrow> bool"
  num_isNaN :: "'n \<Rightarrow> bool"
  num_times :: "'n \<Rightarrow> 'n \<Rightarrow> 'n"
  num_minus :: "'n \<Rightarrow> 'n \<Rightarrow> 'n"
  num_one :: 'n

definition num_truthy :: "'n NumberOps \<Rightarrow> 'n \<Rightarrow> bool" where
  "num_truthy ops x = (\<not> num_isZero ops x \<and> \<not> num_isNaN ops x)"

section \<open>The data model\<close>

text \<open>
  The field \<^verbatim>\<open>f\<close> of an interface is written with a short prefix of the interface's
  name (\<open>cond_property\<close> is \<^verbatim>\<open>Condition.property\<close>), since several interfaces share
  field names. An optional field, or one the code tests for truthiness, is an
  \<open>option\<close>: \<open>None\<close> is \<^verbatim>\<open>undefined\<close>.
\<close>

subsection \<open>Entity metadata and the main store\<close>

datatype AttributeType = DATATYPE | ENUM | ASSOCIATION | COMPOSITION

record MetaPropertyInfo =
  mpi_name :: string
  mpi_type :: string
  mpi_attributeType :: AttributeType

record MetaClassInfo =
  mci_entityName :: string
  mci_properties :: "MetaPropertyInfo list"

record EnumValueInfo =
  evi_name :: string
  evi_caption :: string

record EnumInfo =
  ei_name :: string
  ei_values :: "EnumValueInfo list"

record MainStore =
  ms_metadata :: "MetaClassInfo list option"
  ms_messages :: "(string \<rightharpoonup> string) option"
  ms_enums :: "EnumInfo list option"

text \<open>
  \<^verbatim>\<open>getPropertyInfoNN(propertyName, entityName, metadata)\<close> and
  \<^verbatim>\<open>getPropertyCaption(propertyName, entityName, messages)\<close> live in \<^verbatim>\<open>util/metadata\<close>,
  outside the files verified here. Every function that calls one of them takes it as
  a parameter, so that each theorem holds for whatever these helpers compute,
  including the error the first one throws when it finds no property.
\<close>

type_synonym getPropertyInfoNN_t =
  "string \<Rightarrow> string \<Rightarrow> MetaClassInfo list option \<Rightarrow> error + MetaPropertyInfo"


subsection \<open>Entity filters\<close>

text \<open>
  An \<^verbatim>\<open>EntityFilter\<close> holds a list whose elements are plain conditions or nested
  groups; \<^verbatim>\<open>'conditions' in condition\<close> is true exactly of a group. The operator of a
  condition that \<^verbatim>\<open>setFilters\<close> builds is whatever \<^verbatim>\<open>JSON.parse\<close> returned for it, so
  the field holds a \<open>jsval\<close>.
\<close>

record Condition =
  cond_property :: string
  cond_operator :: jsval
  cond_value :: jsval

datatype GroupType = GroupAND | GroupOR

record ConditionsGroup =
  grp_group :: GroupType
  grp_conditions :: "Condition list"

datatype FilterElement = PlainCondition Condition | Group ConditionsGroup

record EntityFilter =
  ef_conditions :: "FilterElement list"

subsection \<open>The data collection and the table's change event\<close>

text \<open>
  Only the fields the helpers read or write are named; the record is extensible,
  and every theorem about a \<open>DataCollectionStore\<close> is stated for the extended
  record, whose \<open>more\<close> part stands for all the other fields of the store.
\<close>

record 'n DataCollectionStore =
  dc_entityName :: string
  dc_filter :: "EntityFilter option"
  dc_sort :: "string option"
  dc_limit :: "'n option"
  dc_offset :: "'n option"

datatype SortOrder = ascend | descend

record SorterResult =
  srt_field :: string
  srt_order :: "SortOrder option"

record 'n PaginationConfig =
  pg_pageSize :: "'n option"
  pg_current :: "'n option"

text \<open>
  An entry of the table's filter object: \<open>Values xs\<close> is an array of strings,
  \<open>Nullish\<close> is an own property holding \<^verbatim>\<open>null\<close> or \<^verbatim>\<open>undefined\<close>.

  The filter object itself is a JavaScript object: its own properties (\<open>tf_own\<close>, a
  map from keys to entries; a key outside its domain is not an own property) and its
  prototype. The prototype is \<^verbatim>\<open>Object.prototype\<close> for an object literal, an array of
  strings after \<^verbatim>\<open>obj['__proto__'] = [...]\<close>, or \<^verbatim>\<open>null\<close>; in the first two cases the
  object inherits the members of \<^verbatim>\<open>Object.prototype\<close>, among them the method
  \<^verbatim>\<open>hasOwnProperty\<close> and the accessor \<^verbatim>\<open>__proto__\<close>.
\<close>

datatype FilterEntry = Nullish | Values "string list"

datatype Prototype = ObjectPrototype | ArrayPrototype "string list" | NullPrototype

record TableFilters =
  tf_own :: "string \<rightharpoonup> FilterEntry"
  tf_proto :: Prototype

text \<open>
  The object literal \<^verbatim>\<open>{k1: v1, ...}\<close>.
\<close>

definition objectLiteral :: "(string \<rightharpoonup> FilterEntry) \<Rightarrow> TableFilters" where
  "objectLiteral own = \<lparr>tf_own = own, tf_proto = ObjectPrototype\<rparr>"

text \<open>
  \<^verbatim>\<open>tableFilters.hasOwnProperty(p)\<close>. The method is looked up on the object first: an
  own property named \<^verbatim>\<open>hasOwnProperty\<close> shadows the inherited method, and its value (an
  array, \<^verbatim>\<open>null\<close> or \<^verbatim>\<open>undefined\<close>) is not a function, so the call throws; so does the
  call on an object that inherits nothing.
\<close>

definition canCallHasOwnProperty :: "TableFilters \<Rightarrow> bool" where
  "canCallHasOwnProperty tableFilters =
     (tf_own tableFilters ''hasOwnProperty'' = None \<and> tf_proto tableFilters \<noteq> NullPrototype)"

definition hasOwnProperty :: "TableFilters \<Rightarrow> string \<Rightarrow> error + bool" where
  "hasOwnProperty tableFilters p =
     (if canCallHasOwnProperty tableFilters
      then Inr (tf_own tableFilters p \<noteq> None)
      else Inl TypeError)"

text \<open>
  \<^verbatim>\<open>tableFilters[k] = [...]\<close>. The assignment creates or overwrites an own property,
  except for the key \<^verbatim>\<open>__proto__\<close> on an object that has no own property of that name
  and inherits the accessor: there it replaces the object's prototype by the array and
  creates no property.
\<close>

definition assignArray :: "TableFilters \<Rightarrow> string \<Rightarrow> string list \<Rightarrow> TableFilters" where
  "assignArray tableFilters k xs =
     (if k = ''__proto__'' \<and> tf_own tableFilters ''__proto__'' = None
         \<and> tf_proto tableFilters \<noteq> NullPrototype
      then tableFilters\<lparr>tf_proto := ArrayPrototype xs\<rparr>
      else tableFilters\<lparr>tf_own := (tf_own tableFilters)(k \<mapsto> Values xs)\<rparr>)"

section \<open>Sorting and pagination\<close>

text \<open>
  \<^verbatim>\<open>setSorter\<close>: with a sorter that has an order, the sort string is the order's sign
  followed by the field, cut at its first dot when it ends in \<^verbatim>\<open>._instanceName\<close>;
  otherwise it is the default sort.
\<close>

definition setSorter ::
  "SorterResult option \<Rightarrow> string \<Rightarrow> ('n, 'a) DataCollectionStore_scheme
     \<Rightarrow> ('n, 'a) DataCollectionStore_scheme"
where
  "setSorter sorter defaultSort dataCollection =
     (case sorter of
        None \<Rightarrow> dataCollection\<lparr>dc_sort := Some defaultSort\<rparr>
      | Some s \<Rightarrow>
          (case srt_order s of
             None \<Rightarrow> dataCollection\<lparr>dc_sort := Some defaultSort\<rparr>
           | Some ord \<Rightarrow>
               (let sortOrderPrefix = (if ord = descend then ''-'' else ''+'');
                    sortField =
                      (if endsWith (srt_field s) ''._instanceName''
                       then substring (srt_field s) 0 (indexOf (srt_field s) CHR ''.'')
                       else srt_field s)
                in dataCollection\<lparr>dc_sort := Some (sortOrderPrefix @ sortField)\<rparr>)))"

text \<open>
  \<^verbatim>\<open>setPagination\<close>: the guard \<^verbatim>\<open>pagination && pagination.pageSize && pagination.current\<close>
  holds when the object and both fields are present and both numbers are truthy.
\<close>

definition setPagination ::
  "'n NumberOps \<Rightarrow> 'n PaginationConfig option \<Rightarrow> ('n, 'a) DataCollectionStore_scheme
     \<Rightarrow> ('n, 'a) DataCollectionStore_scheme"
where
  "setPagination ops pagination dataCollection =
     (case pagination of
        None \<Rightarrow> dataCollection
      | Some p \<Rightarrow>
          (case (pg_pageSize p, pg_current p) of
             (Some pageSize, Some current) \<Rightarrow>
               (if num_truthy ops pageSize \<and> num_truthy ops current
                then dataCollection
                       \<lparr>dc_limit := Some pageSize,
                        dc_offset :=
                          Some (num_times ops pageSize (num_minus ops current (num_one ops)))\<rparr>
                else dataCollection)
           | _ \<Rightarrow> dataCollection))"

section \<open>Filters\<close>

text \<open>
  \<^verbatim>\<open>Array.prototype.forEach\<close> with a callback that updates a variable of the enclosing
  function and may throw: the variable is threaded through the calls, and the first
  exception ends the loop.
\<close>

fun forEach :: "('s \<Rightarrow> 'a \<Rightarrow> error + 's) \<Rightarrow> 'a list \<Rightarrow> 's \<Rightarrow> error + 's" where
  "forEach f [] s = Inr s"
| "forEach f (x # xs) s = (case f s x of Inl e \<Rightarrow> Inl e | Inr s' \<Rightarrow> forEach f xs s')"

text \<open>
  \<^verbatim>\<open>JSON.parse\<close> and \<^verbatim>\<open>JSON.stringify\<close> are built-ins of the language; the functions
  that call them take them as parameters.
\<close>

type_synonym JSON_parse_t = "string \<Rightarrow> error + jsval"

type_synonym JSON_stringify_t = "jsval \<Rightarrow> string"

definition pushConditions :: "EntityFilter \<Rightarrow> Condition list \<Rightarrow> EntityFilter" where
  "pushConditions entityFilter cs =
     entityFilter\<lparr>ef_conditions := ef_conditions entityFilter @ map PlainCondition cs\<rparr>"

text \<open>
  The callback of \<^verbatim>\<open>setFilters\<close>, for one property name. In the guard
  \<^verbatim>\<open>tableFilters.hasOwnProperty(p) && tableFilters[p] && tableFilters[p].length > 0\<close> the
  call comes first and may throw; when it returns true the own property is read, and
  the guard holds exactly when that is a non-empty array.
\<close>

definition setFilters_callback ::
  "getPropertyInfoNN_t \<Rightarrow> JSON_parse_t \<Rightarrow> TableFilters \<Rightarrow> MainStore
     \<Rightarrow> ('n, 'a) DataCollectionStore_scheme \<Rightarrow> EntityFilter option \<Rightarrow> string
     \<Rightarrow> error + EntityFilter option"
where
  "setFilters_callback getPropertyInfoNN JSON_parse tableFilters mainStore dataCollection
       entityFilter propertyName =
     (case hasOwnProperty tableFilters propertyName of
        Inl e \<Rightarrow> Inl e
      | Inr False \<Rightarrow> Inr entityFilter
      | Inr True \<Rightarrow>
          (case tf_own tableFilters propertyName of
             Some (Values (first # rest)) \<Rightarrow>
               (let ef = (case entityFilter of
                            None \<Rightarrow> \<lparr>ef_conditions = []\<rparr>
                          | Some f \<Rightarrow> f)
                in case getPropertyInfoNN propertyName (dc_entityName dataCollection)
                          (ms_metadata mainStore) of
                     Inl e \<Rightarrow> Inl e
                   | Inr info \<Rightarrow>
                       if mpi_attributeType info = ENUM then
                         Inr (Some (pushConditions ef
                           [\<lparr>cond_property = propertyName,
                             cond_operator = JStr ''in'',
                             cond_value = JArr (map JStr (first # rest))\<rparr>]))
                       else
                         (case JSON_parse first of
                            Inl e \<Rightarrow> Inl e
                          | Inr parsed \<Rightarrow>
                              (case destructure2 parsed ''operator'' ''value'' of
                                 Inl e \<Rightarrow> Inl e
                               | Inr (operator, val) \<Rightarrow>
                                   if operator = JStr ''inInterval'' then
                                     (case destructure2 val ''minDate'' ''maxDate'' of
                                        Inl e \<Rightarrow> Inl e
                                      | Inr (minDate, maxDate) \<Rightarrow>
                                          Inr (Some (pushConditions ef
                                            [\<lparr>cond_property = propertyName,
                                              cond_operator = JStr ''>='',
                                              cond_value = minDate\<rparr>,
                                             \<lparr>cond_property = propertyName,
                                              cond_operator = JStr ''<='',
                                              cond_value = maxDate\<rparr>])))
                                   else
                                     Inr (Some (pushConditions ef
                                       [\<lparr>cond_property = propertyName,
                                         cond_operator = operator,
                                         cond_value = val\<rparr>])))))
           | _ \<Rightarrow> Inr entityFilter))"

text \<open>
  \<^verbatim>\<open>setFilters\<close>. The table filters may be absent (\<open>None\<close>). The only write to the
  collection is the last statement, so an exception (\<open>Inl\<close>) leaves the collection as
  it was.
\<close>

definition setFilters ::
  "getPropertyInfoNN_t \<Rightarrow> JSON_parse_t \<Rightarrow> TableFilters option \<Rightarrow> string list \<Rightarrow> MainStore
     \<Rightarrow> ('n, 'a) DataCollectionStore_scheme \<Rightarrow> error + ('n, 'a) DataCollectionStore_scheme"
where
  "setFilters getPropertyInfoNN JSON_parse tableFilters fields' mainStore dataCollection =
     (case (case tableFilters of
              None \<Rightarrow> Inr None
            | Some tf \<Rightarrow>
                forEach (setFilters_callback getPropertyInfoNN JSON_parse tf mainStore
                           dataCollection) fields' None) of
        Inl e \<Rightarrow> Inl e
      | Inr entityFilter \<Rightarrow> Inr (dataCollection\<lparr>dc_filter := entityFilter\<rparr>))"

text \<open>
  \<^verbatim>\<open>entityFilterToTableFilters\<close>: a nested group throws; a plain condition assigns, under
  its property, the one-element array holding the JSON text of its operator and value.
  The loop starts from the object literal \<^verbatim>\<open>{}\<close>.
\<close>

definition conditionJSON :: "Condition \<Rightarrow> jsval" where
  "conditionJSON c = JObj [(''operator'', cond_operator c), (''value'', cond_value c)]"

definition entityFilterToTableFilters_callback ::
  "JSON_stringify_t \<Rightarrow> TableFilters \<Rightarrow> FilterElement \<Rightarrow> error + TableFilters"
where
  "entityFilterToTableFilters_callback JSON_stringify tableFilters condition =
     (case condition of
        Group g \<Rightarrow>
          Inl (Error ''EntityFilter with ConditionsGroup cannot be converted to table filters'')
      | PlainCondition c \<Rightarrow>
          Inr (assignArray tableFilters (cond_property c)
                 [JSON_stringify (conditionJSON c)]))"

definition entityFilterToTableFilters ::
  "JSON_stringify_t \<Rightarrow> EntityFilter \<Rightarrow> error + TableFilters"
where
  "entityFilterToTableFilters JSON_stringify entityFilter =
     forEach (entityFilterToTableFilters_callback JSON_stringify)
       (ef_conditions entityFilter) (objectLiteral Map.empty)"

section \<open>Handling a table change\<close>

record ('n, 'a) TableChangeDTO =
  dto_pagination :: "'n PaginationConfig option"
  dto_filters :: "TableFilters option"
  dto_sorter :: "SorterResult option"
  dto_defaultSort :: string
  dto_fields :: "string list"
  dto_mainStore :: MainStore
  dto_dataCollection :: "('n, 'a) DataCollectionStore_scheme"

text \<open>
  \<^verbatim>\<open>dataCollection.load()\<close> is a method of the store, outside the files verified here:
  \<open>load\<close> is a parameter, the store's state after the call as a function of its state
  before.

  \<^verbatim>\<open>handleTableChange\<close> returns nothing; what it does is what happens to the collection.
  A run is recorded as: the error it ended with, if any; the collection as the run left
  it; and the states the collection had after each statement of the body that
  completed, in order. An exception of \<^verbatim>\<open>setFilters\<close> ends the run in its first statement,
  before anything is written to the collection.
\<close>

record ('n, 'a) Run =
  run_error :: "error option"
  run_store :: "('n, 'a) DataCollectionStore_scheme"
  run_states :: "('n, 'a) DataCollectionStore_scheme list"

definition handleTableChange ::
  "getPropertyInfoNN_t \<Rightarrow> JSON_parse_t \<Rightarrow> 'n NumberOps
     \<Rightarrow> (('n, 'a) DataCollectionStore_scheme \<Rightarrow> ('n, 'a) DataCollectionStore_scheme)
     \<Rightarrow> ('n, 'a) TableChangeDTO \<Rightarrow> ('n, 'a) Run"
where
  "handleTableChange getPropertyInfoNN JSON_parse ops load tableChangeDTO =
     (case setFilters getPropertyInfoNN JSON_parse (dto_filters tableChangeDTO)
             (dto_fields tableChangeDTO) (dto_mainStore tableChangeDTO)
             (dto_dataCollection tableChangeDTO) of
        Inl e \<Rightarrow>
          \<lparr>run_error = Some e,
           run_store = dto_dataCollection tableChangeDTO,
           run_states = []\<rparr>
      | Inr dc1 \<Rightarrow>
          (let dc2 = setSorter (dto_sorter tableChangeDTO) (dto_defaultSort tableChangeDTO) dc1;
               dc3 = setPagination ops (dto_pagination tableChangeDTO) dc2;
               dc4 = load dc3
           in \<lparr>run_error = None, run_store = dc4, run_states = [dc1, dc2, dc3, dc4]\<rparr>))"

section \<open>Column generation\<close>











section \<open>Reading a collection's filter\<close>

text \<open>
  The property a filter element is about (a nested group has none), the elements of an
  optional filter, and those of them that are about one property, in their order.
\<close>

fun elementProperty :: "FilterElement \<Rightarrow> string option" where
  "elementProperty (PlainCondition c) = Some (cond_property c)"
| "elementProperty (Group g) = None"

definition conditionsOf :: "EntityFilter option \<Rightarrow> FilterElement list" where
  "conditionsOf entityFilter =
     (case entityFilter of None \<Rightarrow> [] | Some f \<Rightarrow> ef_conditions f)"

definition conditionsFor :: "string \<Rightarrow> EntityFilter option \<Rightarrow> FilterElement list" where
  "conditionsFor p entityFilter =
     filter (\<lambda>e. elementProperty e = Some p) (conditionsOf entityFilter)"

text \<open>
  A condition survives the trip through JSON text when parsing the text written for it
  gives a value whose \<^verbatim>\<open>operator\<close> and \<^verbatim>\<open>value\<close> are the condition's own.
\<close>

definition roundTrips :: "JSON_parse_t \<Rightarrow> JSON_stringify_t \<Rightarrow> Condition \<Rightarrow> bool" where
  "roundTrips JSON_parse JSON_stringify c =
     (case JSON_parse (JSON_stringify (conditionJSON c)) of
        Inl e \<Rightarrow> False
      | Inr parsed \<Rightarrow>
          destructure2 parsed ''operator'' ''value'' = Inr (cond_operator c, cond_value c))"

section \<open>Example data\<close>

text \<open>
  A small entity model, a store and a collection, used to run the functions on
  concrete inputs. The two metadata helpers are instantiated by plain lookups. Two
  attributes of the entity have names that are also members of \<^verbatim>\<open>Object.prototype\<close>.
\<close>

definition exampleMetadata :: "MetaClassInfo list" where
  "exampleMetadata =
     [\<lparr>mci_entityName = ''Car'',
       mci_properties =
         [\<lparr>mpi_name = ''model'', mpi_type = ''string'', mpi_attributeType = DATATYPE\<rparr>,
          \<lparr>mpi_name = ''carType'', mpi_type = ''CarType'', mpi_attributeType = ENUM\<rparr>,
          \<lparr>mpi_name = ''garage'', mpi_type = ''Garage'', mpi_attributeType = ASSOCIATION\<rparr>,
          \<lparr>mpi_name = ''purchaseDate'', mpi_type = ''date'', mpi_attributeType = DATATYPE\<rparr>,
          \<lparr>mpi_name = ''hasOwnProperty'', mpi_type = ''string'',
           mpi_attributeType = DATATYPE\<rparr>,
          \<lparr>mpi_name = ''__proto__'', mpi_type = ''string'', mpi_attributeType = DATATYPE\<rparr>]\<rparr>]"

definition exampleMainStore :: MainStore where
  "exampleMainStore =
     \<lparr>ms_metadata = Some exampleMetadata,
      ms_messages = Some [''Car.model'' \<mapsto> ''Model'', ''Car.carType'' \<mapsto> ''Type'',
                          ''Car.garage'' \<mapsto> ''Garage''],
      ms_enums = Some [\<lparr>ei_name = ''CarType'',
                        ei_values = [\<lparr>evi_name = ''SEDAN'', evi_caption = ''Sedan''\<rparr>,
                                     \<lparr>evi_name = ''HATCHBACK'', evi_caption = ''Hatchback''\<rparr>]\<rparr>]\<rparr>"

text \<open>
  A stand-in for the JavaScript numbers: \<^verbatim>\<open>NaN\<close> and the integers. The examples use
  \<^verbatim>\<open>NaN\<close> and small integers only, on which \<open>exampleNumberOps\<close> agrees with the
  language: products and differences of small integers are exact.
\<close>

datatype number = NaN | Num int

definition exampleNumberOps :: "number NumberOps" where
  "exampleNumberOps =
     \<lparr>num_isZero = (\<lambda>x. x = Num 0),
      num_isNaN = (\<lambda>x. x = NaN),
      num_times = (\<lambda>x y. case (x, y) of (Num a, Num b) \<Rightarrow> Num (a * b) | _ \<Rightarrow> NaN),
      num_minus = (\<lambda>x y. case (x, y) of (Num a, Num b) \<Rightarrow> Num (a - b) | _ \<Rightarrow> NaN),
      num_one = Num 1\<rparr>"

text \<open>
  The example collection has one field more than the helpers know of: the number of
  times it was loaded.
\<close>

record CountingStore = "number DataCollectionStore" +
  st_loads :: nat

definition exampleCollection :: CountingStore where
  "exampleCollection =
     \<lparr>dc_entityName = ''Car'',
      dc_filter = Some \<lparr>ef_conditions = [PlainCondition \<lparr>cond_property = ''model'',
                           cond_operator = JStr ''='', cond_value = JStr ''Old''\<rparr>]\<rparr>,
      dc_sort = Some ''+model'',
      dc_limit = Some (Num 10),
      dc_offset = Some (Num 0),
      st_loads = 0\<rparr>"

definition exampleLoad :: "CountingStore \<Rightarrow> CountingStore" where
  "exampleLoad dataCollection = dataCollection\<lparr>st_loads := st_loads dataCollection + 1\<rparr>"

definition exampleGetPropertyInfoNN :: getPropertyInfoNN_t where
  "exampleGetPropertyInfoNN propertyName entityName metadata =
     (case metadata of
        None \<Rightarrow> Inl TypeError
      | Some classes \<Rightarrow>
          (case find (\<lambda>c. mci_entityName c = entityName) classes of
             None \<Rightarrow> Inl (Error (''Cannot find MetaPropertyInfo for property '' @ propertyName))
           | Some c \<Rightarrow>
               (case find (\<lambda>p. mpi_name p = propertyName) (mci_properties c) of
                  None \<Rightarrow>
                    Inl (Error (''Cannot find MetaPropertyInfo for property '' @ propertyName))
                | Some p \<Rightarrow> Inr p)))"



text \<open>
  Three JSON texts and the values they denote. \<open>exampleJSON_parse\<close> and
  \<open>exampleJSON_stringify\<close> agree with \<^verbatim>\<open>JSON.parse\<close> and \<^verbatim>\<open>JSON.stringify\<close> on these
  texts and values, and on the malformed text \<^verbatim>\<open>oops\<close>, which are the only ones the
  examples use.
\<close>

definition jsonAudi :: string where
  \<open>jsonAudi = ''{"operator":"contains","value":"Audi"}''\<close>

definition jsonBMW :: string where
  \<open>jsonBMW = ''{"operator":"contains","value":"BMW"}''\<close>

definition jsonInterval :: string where
  \<open>jsonInterval =
     ''{"operator":"inInterval","value":{"minDate":"2020-01-01","maxDate":"2020-12-31"}}''\<close>

definition valueAudi :: jsval where
  "valueAudi = JObj [(''operator'', JStr ''contains''), (''value'', JStr ''Audi'')]"

definition valueBMW :: jsval where
  "valueBMW = JObj [(''operator'', JStr ''contains''), (''value'', JStr ''BMW'')]"

definition valueInterval :: jsval where
  "valueInterval =
     JObj [(''operator'', JStr ''inInterval''),
           (''value'', JObj [(''minDate'', JStr ''2020-01-01''),
                             (''maxDate'', JStr ''2020-12-31'')])]"

definition exampleJSON_parse :: JSON_parse_t where
  "exampleJSON_parse s =
     (if s = jsonAudi then Inr valueAudi
      else if s = jsonBMW then Inr valueBMW
      else if s = jsonInterval then Inr valueInterval
      else Inl SyntaxError)"

definition exampleJSON_stringify :: JSON_stringify_t where
  "exampleJSON_stringify v =
     (if v = valueAudi then jsonAudi
      else if v = valueBMW then jsonBMW
      else if v = valueInterval then jsonInterval
      else ''null'')"

definition conditionAudi :: "string \<Rightarrow> Condition" where
  "conditionAudi p =
     \<lparr>cond_property = p, cond_operator = JStr ''contains'', cond_value = JStr ''Audi''\<rparr>"

definition conditionBMW :: "string \<Rightarrow> Condition" where
  "conditionBMW p =
     \<lparr>cond_property = p, cond_operator = JStr ''contains'', cond_value = JStr ''BMW''\<rparr>"

section \<open>Sorting\<close>

lemma indexOf_takeWhile:
  "indexOf s c = (if c \<in> set s then int (length (takeWhile (\<lambda>x. x \<noteq> c) s)) else - 1)"
  by (induction s) (auto simp: Let_def)

lemma substring_indexOf:
  assumes "c \<in> set s"
  shows "substring s 0 (indexOf s c) = takeWhile (\<lambda>x. x \<noteq> c) s"
proof -
  let ?t = "takeWhile (\<lambda>x. x \<noteq> c) s"
  have len: "length ?t \<le> length s"
    by (rule length_takeWhile_le)
  have "take (length ?t) s = ?t"
    by (metis append_eq_conv_conj takeWhile_dropWhile_id)
  with len assms show ?thesis
    by (simp add: substring_def indexOf_takeWhile Let_def min_def max_def)
qed

lemma endsWith_append: "endsWith (x @ t) t"
  by (simp add: endsWith_def)

lemma takeWhile_before_instanceName:
  "takeWhile (\<lambda>x. x \<noteq> CHR ''.'') (X @ ''._instanceName'')
     = takeWhile (\<lambda>x. x \<noteq> CHR ''.'') X"
  by (induction X) auto

text \<open>
  Claim C1, amended. For a sorter whose order is \<^verbatim>\<open>descend\<close> and whose field is
  \<open>X\<close> followed by \<^verbatim>\<open>._instanceName\<close>, \<^verbatim>\<open>setSorter\<close> sets the collection's sort to
  \<^verbatim>\<open>-\<close> followed by the part of \<open>X\<close> before its first dot; this is \<^verbatim>\<open>-\<close> followed by
  \<open>X\<close> itself when \<open>X\<close> contains no dot.
\<close>

theorem setSorter_descend_instanceName:
  assumes order: "srt_order sorter = Some descend"
    and field: "srt_field sorter = X @ ''._instanceName''"
  shows "dc_sort (setSorter (Some sorter) defaultSort dataCollection)
           = Some (''-'' @ takeWhile (\<lambda>x. x \<noteq> CHR ''.'') X)
         \<and> (CHR ''.'' \<notin> set X \<longrightarrow>
               dc_sort (setSorter (Some sorter) defaultSort dataCollection) = Some (''-'' @ X))"
proof -
  have "dc_sort (setSorter (Some sorter) defaultSort dataCollection)
          = Some (''-'' @ takeWhile (\<lambda>x. x \<noteq> CHR ''.'') X)"
    using order field
    by (simp add: setSorter_def endsWith_append substring_indexOf
          takeWhile_before_instanceName del: append.simps)
  moreover have "CHR ''.'' \<notin> set X \<Longrightarrow> takeWhile (\<lambda>x. x \<noteq> CHR ''.'') X = X"
    by auto
  ultimately show ?thesis by simp
qed

theorem setSorter_descend_instanceName_witness:
  "dc_sort (setSorter
              (Some \<lparr>srt_field = ''garage'' @ ''._instanceName'', srt_order = Some descend\<rparr>)
              ''+model'' exampleCollection) = Some ''-garage''"
  using setSorter_descend_instanceName
          [where sorter = "\<lparr>srt_field = ''garage'' @ ''._instanceName'',
                            srt_order = Some descend\<rparr>"
             and X = "''garage''" and defaultSort = "''+model''"
             and dataCollection = exampleCollection]
  by simp

text \<open>
  With \<open>X\<close> the dotted path \<^verbatim>\<open>garage.owner\<close> the sort is \<^verbatim>\<open>-garage\<close>, not
  \<^verbatim>\<open>-garage.owner\<close>: \<^verbatim>\<open>indexOf('.')\<close> finds the first dot of the field.
\<close>

theorem setSorter_dotted_field_counterexample:
  "dc_sort (setSorter
              (Some \<lparr>srt_field = ''garage.owner'' @ ''._instanceName'',
                     srt_order = Some descend\<rparr>)
              ''+model'' exampleCollection) = Some ''-garage''
   \<and> ''-garage'' \<noteq> ''-'' @ ''garage.owner''"
  by (simp add: setSorter_def endsWith_def substring_def)

section \<open>Pagination\<close>

text \<open>
  Claim C6, amended. When the pagination object has both a page size and a current page
  and both are truthy numbers (neither zero nor \<^verbatim>\<open>NaN\<close>), \<^verbatim>\<open>setPagination\<close> sets the
  collection's limit to the page size and its offset to the value of the JavaScript
  expression \<^verbatim>\<open>pageSize * (current - 1)\<close>, and changes nothing else; when the pagination
  object is absent, or one of the two fields is missing or is a falsy number (zero or
  \<^verbatim>\<open>NaN\<close>), the collection is left as it was.
\<close>

theorem setPagination_limit_offset:
  "(\<forall>p pageSize current.
       pagination = Some p \<and> pg_pageSize p = Some pageSize \<and> pg_current p = Some current
         \<and> \<not> num_isZero ops pageSize \<and> \<not> num_isNaN ops pageSize
         \<and> \<not> num_isZero ops current \<and> \<not> num_isNaN ops current
       \<longrightarrow> setPagination ops pagination dataCollection
             = dataCollection
                 \<lparr>dc_limit := Some pageSize,
                  dc_offset :=
                    Some (num_times ops pageSize (num_minus ops current (num_one ops)))\<rparr>)
   \<and> ((pagination = None
        \<or> (\<exists>p. pagination = Some p
              \<and> (pg_pageSize p = None \<or> pg_current p = None
                   \<or> (\<exists>pageSize. pg_pageSize p = Some pageSize
                         \<and> (num_isZero ops pageSize \<or> num_isNaN ops pageSize))
                   \<or> (\<exists>current. pg_current p = Some current
                         \<and> (num_isZero ops current \<or> num_isNaN ops current)))))
       \<longrightarrow> setPagination ops pagination dataCollection = dataCollection)"
  by (auto simp: setPagination_def num_truthy_def split: option.splits)

theorem setPagination_limit_offset_witness:
  "setPagination exampleNumberOps
     (Some \<lparr>pg_pageSize = Some (Num 20), pg_current = Some (Num 3)\<rparr>) exampleCollection
     = exampleCollection\<lparr>dc_limit := Some (Num 20), dc_offset := Some (Num 40)\<rparr>
   \<and> setPagination exampleNumberOps
       (Some \<lparr>pg_pageSize = Some (Num 20), pg_current = Some (Num 0)\<rparr>) exampleCollection
     = exampleCollection
   \<and> setPagination exampleNumberOps
       (Some \<lparr>pg_pageSize = None, pg_current = Some (Num 3)\<rparr>) exampleCollection
     = exampleCollection
   \<and> setPagination exampleNumberOps None exampleCollection = exampleCollection"
  using setPagination_limit_offset
          [where ops = exampleNumberOps
             and pagination = "Some \<lparr>pg_pageSize = Some (Num 20), pg_current = Some (Num 3)\<rparr>"
             and dataCollection = exampleCollection]
        setPagination_limit_offset
          [where ops = exampleNumberOps
             and pagination = "Some \<lparr>pg_pageSize = Some (Num 20), pg_current = Some (Num 0)\<rparr>"
             and dataCollection = exampleCollection]
        setPagination_limit_offset
          [where ops = exampleNumberOps
             and pagination = "Some \<lparr>pg_pageSize = None, pg_current = Some (Num 3)\<rparr>"
             and dataCollection = exampleCollection]
        setPagination_limit_offset
          [where ops = exampleNumberOps and pagination = None
             and dataCollection = exampleCollection]
  by (simp add: exampleNumberOps_def)

text \<open>
  A page size that is \<^verbatim>\<open>NaN\<close> is present and is not zero, yet it is falsy: the guard
  fails and the collection keeps its limit and offset.
\<close>

theorem setPagination_NaN_counterexample:
  "setPagination exampleNumberOps
     (Some \<lparr>pg_pageSize = Some NaN, pg_current = Some (Num 3)\<rparr>) exampleCollection
     = exampleCollection
   \<and> \<not> num_isZero exampleNumberOps NaN
   \<and> \<not> num_isZero exampleNumberOps (Num 3)
   \<and> dc_limit exampleCollection = Some (Num 10)
   \<and> Some (Num 10) \<noteq> Some NaN"
  by (simp add: setPagination_def num_truthy_def exampleNumberOps_def exampleCollection_def)

section \<open>What the setters write\<close>

text \<open>
  Claim C7. Each setter changes the collection in its own fields only: when
  \<^verbatim>\<open>setFilters\<close> returns, the collection differs from the one it was given in \<^verbatim>\<open>filter\<close>
  at most (and when it throws, nothing has been written); \<^verbatim>\<open>setSorter\<close> changes \<^verbatim>\<open>sort\<close>
  at most; \<^verbatim>\<open>setPagination\<close> changes \<^verbatim>\<open>limit\<close> and \<^verbatim>\<open>offset\<close> at most. The main store,
  the table filters, the sorter and the pagination object are arguments that the
  functions read and do not return: the source assigns to none of them.
\<close>

theorem setters_frame:
  "(\<forall>dc'. setFilters getPropertyInfoNN JSON_parse tableFilters fields' mainStore dataCollection
            = Inr dc'
       \<longrightarrow> dc' = dataCollection\<lparr>dc_filter := dc_filter dc'\<rparr>)
   \<and> setSorter sorter defaultSort dataCollection
       = dataCollection\<lparr>dc_sort := dc_sort (setSorter sorter defaultSort dataCollection)\<rparr>
   \<and> setPagination ops pagination dataCollection
       = dataCollection\<lparr>dc_limit := dc_limit (setPagination ops pagination dataCollection),
                        dc_offset := dc_offset (setPagination ops pagination dataCollection)\<rparr>"
  by (auto simp: setFilters_def setSorter_def setPagination_def Let_def
           split: option.splits sum.splits)

theorem setters_frame_witness:
  "setFilters exampleGetPropertyInfoNN exampleJSON_parse
     (Some (objectLiteral [''carType'' \<mapsto> Values [''SEDAN'']])) [''model'', ''carType'']
     exampleMainStore exampleCollection
     = Inr (exampleCollection
             \<lparr>dc_filter := Some \<lparr>ef_conditions =
                 [PlainCondition \<lparr>cond_property = ''carType'', cond_operator = JStr ''in'',
                                  cond_value = JArr [JStr ''SEDAN'']\<rparr>]\<rparr>\<rparr>)
   \<and> setSorter (Some \<lparr>srt_field = ''model'', srt_order = Some ascend\<rparr>) ''-model''
       exampleCollection
     = exampleCollection\<lparr>dc_sort := Some ''+model''\<rparr>
   \<and> setPagination exampleNumberOps
       (Some \<lparr>pg_pageSize = Some (Num 20), pg_current = Some (Num 3)\<rparr>) exampleCollection
     = exampleCollection\<lparr>dc_limit := Some (Num 20), dc_offset := Some (Num 40)\<rparr>"
  using setters_frame
          [where getPropertyInfoNN = exampleGetPropertyInfoNN and JSON_parse = exampleJSON_parse
             and tableFilters = "Some (objectLiteral [''carType'' \<mapsto> Values [''SEDAN'']])"
             and fields' = "[''model'', ''carType'']" and mainStore = exampleMainStore
             and dataCollection = exampleCollection
             and sorter = "Some \<lparr>srt_field = ''model'', srt_order = Some ascend\<rparr>"
             and defaultSort = "''-model''" and ops = exampleNumberOps
             and pagination = "Some \<lparr>pg_pageSize = Some (Num 20),
                                      pg_current = Some (Num 3)\<rparr>"]
  by (simp add: setFilters_def setFilters_callback_def pushConditions_def hasOwnProperty_def
          canCallHasOwnProperty_def objectLiteral_def setSorter_def setPagination_def num_truthy_def exampleNumberOps_def
        endsWith_def exampleGetPropertyInfoNN_def exampleMainStore_def exampleMetadata_def
          exampleCollection_def)

section \<open>Clearing the filter\<close>

lemma setFilters_callback_cannot_call:
  "\<not> canCallHasOwnProperty tf \<Longrightarrow> setFilters_callback g j tf ms dc acc p = Inl TypeError"
  by (simp add: setFilters_callback_def hasOwnProperty_def)

lemma forEach_cannot_call:
  "\<not> canCallHasOwnProperty tf \<Longrightarrow> ps \<noteq> [] \<Longrightarrow>
     forEach (setFilters_callback g j tf ms dc) ps acc = Inl TypeError"
  by (cases ps) (simp_all add: setFilters_callback_cannot_call)

lemma setFilters_callback_inactive:
  "canCallHasOwnProperty tf \<Longrightarrow> \<not> (\<exists>x xs. tf_own tf p = Some (Values (x # xs))) \<Longrightarrow>
     setFilters_callback g j tf ms dc acc p = Inr acc"
  by (auto simp: setFilters_callback_def hasOwnProperty_def
           split: option.splits FilterEntry.splits list.splits)

lemma forEach_inactive:
  "fields' = [] \<or> canCallHasOwnProperty tf \<Longrightarrow>
   \<forall>p\<in>set fields'. \<not> (\<exists>x xs. tf_own tf p = Some (Values (x # xs))) \<Longrightarrow>
     forEach (setFilters_callback g j tf ms dc) fields' acc = Inr acc"
  by (induction fields') (simp_all add: setFilters_callback_inactive)

text \<open>
  Claim C9, amended. When the table filters are absent, or they are an object on which
  \<^verbatim>\<open>hasOwnProperty\<close> can be called (it has no own key of that name and inherits the
  method; or \<^verbatim>\<open>fields\<close> is empty, so that it is never called) and no property listed in
  \<^verbatim>\<open>fields\<close> has an entry that is a non-empty array, \<^verbatim>\<open>setFilters\<close> returns normally and
  sets the collection's filter to \<^verbatim>\<open>undefined\<close>, whatever filter the collection held
  before. When \<^verbatim>\<open>hasOwnProperty\<close> cannot be called on the table filters and \<^verbatim>\<open>fields\<close> is
  not empty, \<^verbatim>\<open>setFilters\<close> throws a \<^verbatim>\<open>TypeError\<close> and writes nothing.
\<close>

theorem setFilters_clears_filter:
  "((tableFilters = None \<or>
      (\<exists>tf. tableFilters = Some tf
         \<and> (fields' = [] \<or> canCallHasOwnProperty tf)
         \<and> (\<forall>p\<in>set fields'. \<not> (\<exists>x xs. tf_own tf p = Some (Values (x # xs))))))
     \<longrightarrow> setFilters getPropertyInfoNN JSON_parse tableFilters fields' mainStore dataCollection
           = Inr (dataCollection\<lparr>dc_filter := None\<rparr>))
   \<and> ((\<exists>tf. tableFilters = Some tf \<and> fields' \<noteq> [] \<and> \<not> canCallHasOwnProperty tf)
     \<longrightarrow> setFilters getPropertyInfoNN JSON_parse tableFilters fields' mainStore dataCollection
           = Inl TypeError)"
  by (auto simp: setFilters_def forEach_inactive forEach_cannot_call)

theorem setFilters_clears_filter_witness:
  "setFilters exampleGetPropertyInfoNN exampleJSON_parse None [''model'', ''carType'']
     exampleMainStore exampleCollection
     = Inr (exampleCollection\<lparr>dc_filter := None\<rparr>)
   \<and> dc_filter exampleCollection \<noteq> None
   \<and> setFilters exampleGetPropertyInfoNN exampleJSON_parse
        (Some (objectLiteral [''model'' \<mapsto> Values [], ''carType'' \<mapsto> Nullish,
                              ''garage'' \<mapsto> Values [''x'']]))
        [''model'', ''carType'', ''purchaseDate''] exampleMainStore exampleCollection
     = Inr (exampleCollection\<lparr>dc_filter := None\<rparr>)
   \<and> setFilters exampleGetPropertyInfoNN exampleJSON_parse
        (Some \<lparr>tf_own = Map.empty, tf_proto = NullPrototype\<rparr>)
        [''model''] exampleMainStore exampleCollection
     = Inl TypeError"
  using setFilters_clears_filter
          [where tableFilters = None and fields' = "[''model'', ''carType'']"
             and getPropertyInfoNN = exampleGetPropertyInfoNN
             and JSON_parse = exampleJSON_parse
             and mainStore = exampleMainStore and dataCollection = exampleCollection]
        setFilters_clears_filter
          [where tableFilters = "Some (objectLiteral [''model'' \<mapsto> Values [],
                                       ''carType'' \<mapsto> Nullish, ''garage'' \<mapsto> Values [''x'']])"
             and fields' = "[''model'', ''carType'', ''purchaseDate'']"
             and getPropertyInfoNN = exampleGetPropertyInfoNN
             and JSON_parse = exampleJSON_parse
             and mainStore = exampleMainStore and dataCollection = exampleCollection]
        setFilters_clears_filter
          [where tableFilters = "Some \<lparr>tf_own = Map.empty, tf_proto = NullPrototype\<rparr>"
             and fields' = "[''model'']"
             and getPropertyInfoNN = exampleGetPropertyInfoNN
             and JSON_parse = exampleJSON_parse
             and mainStore = exampleMainStore and dataCollection = exampleCollection]
  by (simp add: exampleCollection_def objectLiteral_def canCallHasOwnProperty_def)

text \<open>
  Table filters whose only key is \<^verbatim>\<open>hasOwnProperty\<close>, and \<^verbatim>\<open>fields\<close> listing \<^verbatim>\<open>model\<close>: no
  listed property has an entry, but the guard calls the array stored under
  \<^verbatim>\<open>hasOwnProperty\<close>; \<^verbatim>\<open>setFilters\<close> throws and the collection keeps its filter.
\<close>

theorem setFilters_shadowed_hasOwnProperty_counterexample:
  "tf_own (objectLiteral [''hasOwnProperty'' \<mapsto> Values [''x'']]) ''model'' = None
   \<and> setFilters exampleGetPropertyInfoNN exampleJSON_parse
        (Some (objectLiteral [''hasOwnProperty'' \<mapsto> Values [''x'']])) [''model'']
        exampleMainStore exampleCollection
     = Inl TypeError"
  by (simp add: setFilters_def setFilters_callback_def hasOwnProperty_def
        canCallHasOwnProperty_def objectLiteral_def)

section \<open>The conditions pushed for one property\<close>

lemma conditionsFor_push:
  "conditionsFor p (Some (pushConditions f cs))
     = conditionsFor p (Some f) @ map PlainCondition (filter (\<lambda>c. cond_property c = p) cs)"
  by (simp add: conditionsFor_def conditionsOf_def pushConditions_def filter_map o_def)

lemma conditionsFor_started:
  "conditionsFor p (Some (case acc of None \<Rightarrow> \<lparr>ef_conditions = []\<rparr> | Some f \<Rightarrow> f))
     = conditionsFor p acc"
  by (simp add: conditionsFor_def conditionsOf_def split: option.splits)

lemma conditionsFor_empty:
  "conditionsFor p (Some \<lparr>ef_conditions = []\<rparr>) = conditionsFor p None"
  by (simp add: conditionsFor_def conditionsOf_def)

lemma setFilters_callback_other:
  assumes "setFilters_callback g j tf ms dc acc q = Inr acc'" and "q \<noteq> p"
  shows "conditionsFor p acc' = conditionsFor p acc"
  using assms
  by (auto simp: setFilters_callback_def hasOwnProperty_def Let_def conditionsFor_push
                 conditionsFor_empty
           split: option.splits FilterEntry.splits list.splits sum.splits if_splits
                  prod.splits bool.splits)

lemma setFilters_callback_returns_can_call:
  "setFilters_callback g j tf ms dc acc q = Inr acc' \<Longrightarrow> canCallHasOwnProperty tf"
  by (rule ccontr) (simp add: setFilters_callback_cannot_call)

text \<open>
  If the callback, run on \<open>p\<close>, pushes the conditions \<open>new\<close> (all of them about
  \<open>p\<close>) whenever its guard can be evaluated, then a loop over \<open>ps\<close> that ends normally
  has pushed \<open>new\<close> once for each occurrence of \<open>p\<close> in \<open>ps\<close>, and nothing else
  about \<open>p\<close>.
\<close>

lemma forEach_conditionsFor:
  assumes step: "\<And>acc. canCallHasOwnProperty tf \<Longrightarrow>
                   setFilters_callback g j tf ms dc acc p
                   = Inr (Some (pushConditions
                                  (case acc of None \<Rightarrow> \<lparr>ef_conditions = []\<rparr> | Some f \<Rightarrow> f)
                                  new))"
    and new: "\<forall>c\<in>set new. cond_property c = p"
    and run: "forEach (setFilters_callback g j tf ms dc) ps acc = Inr acc'"
  shows "conditionsFor p acc'
           = conditionsFor p acc
               @ concat (replicate (count_list ps p) (map PlainCondition new))"
  using run
proof (induction ps arbitrary: acc)
  case Nil
  then show ?case by simp
next
  case (Cons q qs)
  from Cons.prems obtain mid where
    mid: "setFilters_callback g j tf ms dc acc q = Inr mid"
    and rest: "forEach (setFilters_callback g j tf ms dc) qs mid = Inr acc'"
    by (auto split: sum.splits)
  have IH: "conditionsFor p acc'
              = conditionsFor p mid
                  @ concat (replicate (count_list qs p) (map PlainCondition new))"
    by (rule Cons.IH [OF rest])
  show ?case
  proof (cases "q = p")
    case True
    from new have "filter (\<lambda>c. cond_property c = p) new = new"
      by (simp add: filter_id_conv)
    with mid step [OF setFilters_callback_returns_can_call [OF mid], of acc] True
    have "conditionsFor p mid = conditionsFor p acc @ map PlainCondition new"
      by (auto simp: conditionsFor_push conditionsFor_started)
    with IH True show ?thesis by simp
  next
    case False
    with setFilters_callback_other [OF mid]
    have "conditionsFor p mid = conditionsFor p acc" by blast
    with IH False show ?thesis by simp
  qed
qed

lemma setFilters_returns:
  assumes "setFilters g j (Some tf) ps ms dc = Inr dc'"
  obtains ef where "forEach (setFilters_callback g j tf ms dc) ps None = Inr ef"
    and "dc' = dc\<lparr>dc_filter := ef\<rparr>"
  using assms by (auto simp: setFilters_def split: sum.splits)

section \<open>Enumeration filters\<close>

text \<open>
  Claim C4, amended. Let \<open>p\<close> be a property whose declared attribute type is \<^verbatim>\<open>ENUM\<close>
  and whose entry in the table filters is a non-empty array. Whenever \<^verbatim>\<open>setFilters\<close>
  returns normally, the conditions about \<open>p\<close> in the filter it stored are: one
  condition with operator \<^verbatim>\<open>in\<close> and the whole array as value for each occurrence of
  \<open>p\<close> in \<^verbatim>\<open>fields\<close>, and no other. So a property listed once gets exactly one such
  condition.
\<close>

theorem setFilters_enum_conditions:
  assumes ret: "setFilters getPropertyInfoNN JSON_parse (Some tableFilters) fields' mainStore
                  dataCollection = Inr dc'"
    and info: "getPropertyInfoNN p (dc_entityName dataCollection) (ms_metadata mainStore)
                 = Inr info"
    and enum: "mpi_attributeType info = ENUM"
    and entry: "tf_own tableFilters p = Some (Values (x # xs))"
  shows "conditionsFor p (dc_filter dc')
           = replicate (count_list fields' p)
               (PlainCondition \<lparr>cond_property = p, cond_operator = JStr ''in'',
                                cond_value = JArr (map JStr (x # xs))\<rparr>)"
proof -
  let ?c = "\<lparr>cond_property = p, cond_operator = JStr ''in'',
             cond_value = JArr (map JStr (x # xs))\<rparr>"
  from ret obtain ef where
    run: "forEach (setFilters_callback getPropertyInfoNN JSON_parse tableFilters mainStore
                     dataCollection) fields' None = Inr ef"
    and dc': "dc' = dataCollection\<lparr>dc_filter := ef\<rparr>"
    by (rule setFilters_returns)
  have step: "\<And>acc. canCallHasOwnProperty tableFilters \<Longrightarrow>
                 setFilters_callback getPropertyInfoNN JSON_parse tableFilters mainStore
                        dataCollection acc p
                   = Inr (Some (pushConditions
                                  (case acc of None \<Rightarrow> \<lparr>ef_conditions = []\<rparr> | Some f \<Rightarrow> f)
                                  [?c]))"
    using info enum entry by (simp add: setFilters_callback_def hasOwnProperty_def)
  have "conditionsFor p ef
          = conditionsFor p None
              @ concat (replicate (count_list fields' p) (map PlainCondition [?c]))"
    by (rule forEach_conditionsFor [OF step _ run]) simp_all
  also have "\<dots> = replicate (count_list fields' p) (PlainCondition ?c)"
    by (induction "count_list fields' p") (simp_all add: conditionsFor_def conditionsOf_def)
  finally show ?thesis by (simp add: dc')
qed

theorem setFilters_enum_conditions_witness:
  "setFilters exampleGetPropertyInfoNN exampleJSON_parse
     (Some (objectLiteral [''model'' \<mapsto> Values [jsonAudi], ''carType'' \<mapsto> Values [''SEDAN'', ''HATCHBACK'']]))
     [''model'', ''carType''] exampleMainStore exampleCollection
     = Inr (exampleCollection
             \<lparr>dc_filter := Some \<lparr>ef_conditions =
                 [PlainCondition (conditionAudi ''model''),
                  PlainCondition \<lparr>cond_property = ''carType'', cond_operator = JStr ''in'',
                                  cond_value = JArr [JStr ''SEDAN'', JStr ''HATCHBACK'']\<rparr>]\<rparr>\<rparr>)
   \<and> conditionsFor ''carType''
        (Some \<lparr>ef_conditions =
                 [PlainCondition (conditionAudi ''model''),
                  PlainCondition \<lparr>cond_property = ''carType'', cond_operator = JStr ''in'',
                                  cond_value = JArr [JStr ''SEDAN'', JStr ''HATCHBACK'']\<rparr>]\<rparr>)
     = [PlainCondition \<lparr>cond_property = ''carType'', cond_operator = JStr ''in'',
                        cond_value = JArr [JStr ''SEDAN'', JStr ''HATCHBACK'']\<rparr>]"
proof -
  let ?tf = "objectLiteral [''model'' \<mapsto> Values [jsonAudi],
                            ''carType'' \<mapsto> Values [''SEDAN'', ''HATCHBACK'']]"
  let ?dc' = "exampleCollection
             \<lparr>dc_filter := Some \<lparr>ef_conditions =
                 [PlainCondition (conditionAudi ''model''),
                  PlainCondition \<lparr>cond_property = ''carType'', cond_operator = JStr ''in'',
                                  cond_value = JArr [JStr ''SEDAN'', JStr ''HATCHBACK'']\<rparr>]\<rparr>\<rparr>"
  have ret: "setFilters exampleGetPropertyInfoNN exampleJSON_parse (Some ?tf)
               [''model'', ''carType''] exampleMainStore exampleCollection = Inr ?dc'"
    by (simp add: setFilters_def setFilters_callback_def pushConditions_def hasOwnProperty_def
          canCallHasOwnProperty_def objectLiteral_def
          exampleGetPropertyInfoNN_def exampleMainStore_def exampleMetadata_def
          exampleCollection_def
          exampleJSON_parse_def jsonAudi_def jsonBMW_def jsonInterval_def valueAudi_def
          valueBMW_def valueInterval_def conditionAudi_def)
  have info: "exampleGetPropertyInfoNN ''carType'' (dc_entityName exampleCollection)
                (ms_metadata exampleMainStore)
              = Inr \<lparr>mpi_name = ''carType'', mpi_type = ''CarType'', mpi_attributeType = ENUM\<rparr>"
    by (simp add: exampleGetPropertyInfoNN_def exampleMainStore_def exampleMetadata_def
          exampleCollection_def)
  have entry: "tf_own ?tf ''carType'' = Some (Values [''SEDAN'', ''HATCHBACK''])"
    by (simp add: objectLiteral_def)
  from setFilters_enum_conditions [OF ret info _ entry] ret show ?thesis
    by simp
qed

text \<open>
  A property listed twice gets two conditions; and when a property listed before it has
  a filter text that is not JSON, \<^verbatim>\<open>setFilters\<close> throws there: nothing is pushed for
  the enumeration property and no filter is stored.
\<close>

theorem setFilters_enum_conditions_counterexample:
  "setFilters exampleGetPropertyInfoNN exampleJSON_parse
     (Some (objectLiteral [''carType'' \<mapsto> Values [''SEDAN'']])) [''carType'', ''carType'']
     exampleMainStore exampleCollection
     = Inr (exampleCollection
             \<lparr>dc_filter := Some \<lparr>ef_conditions =
                 [PlainCondition \<lparr>cond_property = ''carType'', cond_operator = JStr ''in'',
                                  cond_value = JArr [JStr ''SEDAN'']\<rparr>,
                  PlainCondition \<lparr>cond_property = ''carType'', cond_operator = JStr ''in'',
                                  cond_value = JArr [JStr ''SEDAN'']\<rparr>]\<rparr>\<rparr>)
   \<and> setFilters exampleGetPropertyInfoNN exampleJSON_parse
        (Some (objectLiteral [''carType'' \<mapsto> Values [''SEDAN''], ''model'' \<mapsto> Values [''oops'']]))
        [''model'', ''carType''] exampleMainStore exampleCollection
     = Inl SyntaxError"
  by (simp add: setFilters_def setFilters_callback_def pushConditions_def hasOwnProperty_def
          canCallHasOwnProperty_def objectLiteral_def
        exampleGetPropertyInfoNN_def exampleMainStore_def exampleMetadata_def
          exampleCollection_def
        exampleJSON_parse_def jsonAudi_def jsonBMW_def jsonInterval_def valueAudi_def
          valueBMW_def valueInterval_def)

section \<open>Interval filters\<close>

lemma destructure2_string_property:
  "getProp v a = JStr s \<Longrightarrow> destructure2 v a b = Inr (JStr s, getProp v b)"
  by (cases v) simp_all

text \<open>
  Claim C10, amended. Let \<open>p\<close> be a property whose declared attribute type is not
  \<^verbatim>\<open>ENUM\<close> and whose first filter text parses to a value with operator \<^verbatim>\<open>inInterval\<close>
  and, as its value, an object that has \<^verbatim>\<open>minDate\<close> and \<^verbatim>\<open>maxDate\<close>. Whenever
  \<^verbatim>\<open>setFilters\<close> returns normally, the conditions about \<open>p\<close> in the filter it stored
  are, for each occurrence of \<open>p\<close> in \<^verbatim>\<open>fields\<close>, the pair of \<^verbatim>\<open>>=\<close> with \<^verbatim>\<open>minDate\<close>
  followed by \<^verbatim>\<open><=\<close> with \<^verbatim>\<open>maxDate\<close>, and no other. So a property listed once gets
  exactly these two conditions, in this order.
\<close>

theorem setFilters_interval_conditions:
  assumes ret: "setFilters getPropertyInfoNN JSON_parse (Some tableFilters) fields' mainStore
                  dataCollection = Inr dc'"
    and info: "getPropertyInfoNN p (dc_entityName dataCollection) (ms_metadata mainStore)
                 = Inr info"
    and nonenum: "mpi_attributeType info \<noteq> ENUM"
    and entry: "tf_own tableFilters p = Some (Values (x # xs))"
    and parse: "JSON_parse x = Inr parsed"
    and op: "getProp parsed ''operator'' = JStr ''inInterval''"
    and val: "getProp parsed ''value'' = JObj kvs"
    and minDate: "map_of kvs ''minDate'' = Some minDate"
    and maxDate: "map_of kvs ''maxDate'' = Some maxDate"
  shows "conditionsFor p (dc_filter dc')
           = concat (replicate (count_list fields' p)
               [PlainCondition \<lparr>cond_property = p, cond_operator = JStr ''>='',
                                 cond_value = minDate\<rparr>,
                PlainCondition \<lparr>cond_property = p, cond_operator = JStr ''<='',
                                 cond_value = maxDate\<rparr>])"
proof -
  let ?new = "[\<lparr>cond_property = p, cond_operator = JStr ''>='', cond_value = minDate\<rparr>,
               \<lparr>cond_property = p, cond_operator = JStr ''<='', cond_value = maxDate\<rparr>]"
  from ret obtain ef where
    run: "forEach (setFilters_callback getPropertyInfoNN JSON_parse tableFilters mainStore
                     dataCollection) fields' None = Inr ef"
    and dc': "dc' = dataCollection\<lparr>dc_filter := ef\<rparr>"
    by (rule setFilters_returns)
  have step: "\<And>acc. canCallHasOwnProperty tableFilters \<Longrightarrow>
                 setFilters_callback getPropertyInfoNN JSON_parse tableFilters mainStore
                        dataCollection acc p
                   = Inr (Some (pushConditions
                                  (case acc of None \<Rightarrow> \<lparr>ef_conditions = []\<rparr> | Some f \<Rightarrow> f)
                                  ?new))"
    using info nonenum entry parse val minDate maxDate destructure2_string_property [OF op]
    by (simp add: setFilters_callback_def hasOwnProperty_def)
  have "conditionsFor p ef
          = conditionsFor p None
              @ concat (replicate (count_list fields' p) (map PlainCondition ?new))"
    by (rule forEach_conditionsFor [OF step _ run]) simp_all
  then show ?thesis
    by (simp add: dc' conditionsFor_def conditionsOf_def)
qed

theorem setFilters_interval_conditions_witness:
  "setFilters exampleGetPropertyInfoNN exampleJSON_parse
     (Some (objectLiteral [''model'' \<mapsto> Values [jsonAudi], ''purchaseDate'' \<mapsto> Values [jsonInterval]]))
     [''purchaseDate'', ''model''] exampleMainStore exampleCollection
     = Inr (exampleCollection
             \<lparr>dc_filter := Some \<lparr>ef_conditions =
                 [PlainCondition \<lparr>cond_property = ''purchaseDate'', cond_operator = JStr ''>='',
                                  cond_value = JStr ''2020-01-01''\<rparr>,
                  PlainCondition \<lparr>cond_property = ''purchaseDate'', cond_operator = JStr ''<='',
                                  cond_value = JStr ''2020-12-31''\<rparr>,
                  PlainCondition (conditionAudi ''model'')]\<rparr>\<rparr>)
   \<and> conditionsFor ''purchaseDate''
        (Some \<lparr>ef_conditions =
                 [PlainCondition \<lparr>cond_property = ''purchaseDate'', cond_operator = JStr ''>='',
                                  cond_value = JStr ''2020-01-01''\<rparr>,
                  PlainCondition \<lparr>cond_property = ''purchaseDate'', cond_operator = JStr ''<='',
                                  cond_value = JStr ''2020-12-31''\<rparr>,
                  PlainCondition (conditionAudi ''model'')]\<rparr>)
     = [PlainCondition \<lparr>cond_property = ''purchaseDate'', cond_operator = JStr ''>='',
                        cond_value = JStr ''2020-01-01''\<rparr>,
        PlainCondition \<lparr>cond_property = ''purchaseDate'', cond_operator = JStr ''<='',
                        cond_value = JStr ''2020-12-31''\<rparr>]"
proof -
  let ?tf = "objectLiteral [''model'' \<mapsto> Values [jsonAudi],
                            ''purchaseDate'' \<mapsto> Values [jsonInterval]]"
  let ?dc' = "exampleCollection
             \<lparr>dc_filter := Some \<lparr>ef_conditions =
                 [PlainCondition \<lparr>cond_property = ''purchaseDate'', cond_operator = JStr ''>='',
                                  cond_value = JStr ''2020-01-01''\<rparr>,
                  PlainCondition \<lparr>cond_property = ''purchaseDate'', cond_operator = JStr ''<='',
                                  cond_value = JStr ''2020-12-31''\<rparr>,
                  PlainCondition (conditionAudi ''model'')]\<rparr>\<rparr>"
  have ret: "setFilters exampleGetPropertyInfoNN exampleJSON_parse (Some ?tf)
               [''purchaseDate'', ''model''] exampleMainStore exampleCollection = Inr ?dc'"
    by (simp add: setFilters_def setFilters_callback_def pushConditions_def hasOwnProperty_def
          canCallHasOwnProperty_def objectLiteral_def
          exampleGetPropertyInfoNN_def exampleMainStore_def exampleMetadata_def
          exampleCollection_def
          exampleJSON_parse_def jsonAudi_def jsonBMW_def jsonInterval_def valueAudi_def
          valueBMW_def valueInterval_def conditionAudi_def)
  have info: "exampleGetPropertyInfoNN ''purchaseDate'' (dc_entityName exampleCollection)
                (ms_metadata exampleMainStore)
              = Inr \<lparr>mpi_name = ''purchaseDate'', mpi_type = ''date'',
                     mpi_attributeType = DATATYPE\<rparr>"
    by (simp add: exampleGetPropertyInfoNN_def exampleMainStore_def exampleMetadata_def
          exampleCollection_def)
  have entry: "tf_own ?tf ''purchaseDate'' = Some (Values [jsonInterval])"
    by (simp add: objectLiteral_def)
  have parse: "exampleJSON_parse jsonInterval = Inr valueInterval"
    by (simp add: exampleJSON_parse_def jsonAudi_def jsonBMW_def jsonInterval_def valueAudi_def
          valueBMW_def valueInterval_def)
  have op: "getProp valueInterval ''operator'' = JStr ''inInterval''"
    by (simp add: valueInterval_def)
  have val: "getProp valueInterval ''value''
               = JObj [(''minDate'', JStr ''2020-01-01''), (''maxDate'', JStr ''2020-12-31'')]"
    by (simp add: valueInterval_def)
  from setFilters_interval_conditions [OF ret info _ entry parse op val] ret show ?thesis
    by simp
qed

text \<open>
  A property listed twice gets four conditions; and when a property listed before it
  has a filter text that is not JSON, \<^verbatim>\<open>setFilters\<close> throws there: nothing is pushed for
  the interval property and no filter is stored.
\<close>

theorem setFilters_interval_conditions_counterexample:
  "setFilters exampleGetPropertyInfoNN exampleJSON_parse
     (Some (objectLiteral [''purchaseDate'' \<mapsto> Values [jsonInterval]])) [''purchaseDate'', ''purchaseDate'']
     exampleMainStore exampleCollection
     = Inr (exampleCollection
             \<lparr>dc_filter := Some \<lparr>ef_conditions =
                 [PlainCondition \<lparr>cond_property = ''purchaseDate'', cond_operator = JStr ''>='',
                                  cond_value = JStr ''2020-01-01''\<rparr>,
                  PlainCondition \<lparr>cond_property = ''purchaseDate'', cond_operator = JStr ''<='',
                                  cond_value = JStr ''2020-12-31''\<rparr>,
                  PlainCondition \<lparr>cond_property = ''purchaseDate'', cond_operator = JStr ''>='',
                                  cond_value = JStr ''2020-01-01''\<rparr>,
                  PlainCondition \<lparr>cond_property = ''purchaseDate'', cond_operator = JStr ''<='',
                                  cond_value = JStr ''2020-12-31''\<rparr>]\<rparr>\<rparr>)
   \<and> setFilters exampleGetPropertyInfoNN exampleJSON_parse
        (Some (objectLiteral [''purchaseDate'' \<mapsto> Values [jsonInterval], ''model'' \<mapsto> Values [''oops'']]))
        [''model'', ''purchaseDate''] exampleMainStore exampleCollection
     = Inl SyntaxError"
  by (simp add: setFilters_def setFilters_callback_def pushConditions_def hasOwnProperty_def
          canCallHasOwnProperty_def objectLiteral_def
        exampleGetPropertyInfoNN_def exampleMainStore_def exampleMetadata_def
          exampleCollection_def
        exampleJSON_parse_def jsonAudi_def jsonBMW_def jsonInterval_def valueAudi_def
          valueBMW_def valueInterval_def)

section \<open>The steps of a table change\<close>

lemma setFilters_frame:
  "setFilters g j tableFilters fields' ms dc = Inr dc1 \<Longrightarrow> dc1 = dc\<lparr>dc_filter := dc_filter dc1\<rparr>"
  by (auto simp: setFilters_def split: sum.splits)

lemma setSorter_setPagination_after_setFilters:
  "setPagination ops pagination (setSorter sorter defaultSort (dc\<lparr>dc_filter := f\<rparr>))
     = dc\<lparr>dc_filter := f,
          dc_sort := dc_sort (setSorter sorter defaultSort dc),
          dc_limit := dc_limit (setPagination ops pagination dc),
          dc_offset := dc_offset (setPagination ops pagination dc)\<rparr>"
  by (auto simp: setSorter_def setPagination_def Let_def split: option.splits)

text \<open>
  Claim C8, amended. When \<^verbatim>\<open>setFilters\<close> returns normally, \<^verbatim>\<open>handleTableChange\<close> ends
  without error, and the collection goes through exactly four states in this order:
  the result of \<^verbatim>\<open>setFilters\<close> on the collection it was given, the result of \<^verbatim>\<open>setSorter\<close>
  on that, the result of \<^verbatim>\<open>setPagination\<close> on that, and the result of one \<^verbatim>\<open>load\<close> on
  that, which is the state the run leaves (this holds for every \<open>load\<close>). The state
  handed to \<^verbatim>\<open>load\<close> is the original collection with the filter computed by
  \<^verbatim>\<open>setFilters\<close>, the sort computed by \<^verbatim>\<open>setSorter\<close> and the limit and offset computed by
  \<^verbatim>\<open>setPagination\<close>. When \<^verbatim>\<open>setFilters\<close> throws, \<^verbatim>\<open>handleTableChange\<close> ends with the same
  error, the collection goes through no state and is left as it was: neither
  \<^verbatim>\<open>setSorter\<close>, \<^verbatim>\<open>setPagination\<close> nor \<^verbatim>\<open>load\<close> has run.
\<close>

theorem handleTableChange_sequence:
  "(\<forall>dc1. setFilters getPropertyInfoNN JSON_parse (dto_filters tableChangeDTO)
             (dto_fields tableChangeDTO) (dto_mainStore tableChangeDTO)
             (dto_dataCollection tableChangeDTO) = Inr dc1
      \<longrightarrow> run_error (handleTableChange getPropertyInfoNN JSON_parse ops load tableChangeDTO)
            = None
        \<and> run_states (handleTableChange getPropertyInfoNN JSON_parse ops load tableChangeDTO)
            = [dc1,
               setSorter (dto_sorter tableChangeDTO) (dto_defaultSort tableChangeDTO) dc1,
               setPagination ops (dto_pagination tableChangeDTO)
                 (setSorter (dto_sorter tableChangeDTO) (dto_defaultSort tableChangeDTO) dc1),
               load (setPagination ops (dto_pagination tableChangeDTO)
                       (setSorter (dto_sorter tableChangeDTO) (dto_defaultSort tableChangeDTO)
                          dc1))]
        \<and> run_store (handleTableChange getPropertyInfoNN JSON_parse ops load tableChangeDTO)
            = load (setPagination ops (dto_pagination tableChangeDTO)
                      (setSorter (dto_sorter tableChangeDTO) (dto_defaultSort tableChangeDTO)
                         dc1))
        \<and> setPagination ops (dto_pagination tableChangeDTO)
             (setSorter (dto_sorter tableChangeDTO) (dto_defaultSort tableChangeDTO) dc1)
            = (dto_dataCollection tableChangeDTO)
                \<lparr>dc_filter := dc_filter dc1,
                 dc_sort := dc_sort (setSorter (dto_sorter tableChangeDTO)
                                       (dto_defaultSort tableChangeDTO)
                                       (dto_dataCollection tableChangeDTO)),
                 dc_limit := dc_limit (setPagination ops (dto_pagination tableChangeDTO)
                                         (dto_dataCollection tableChangeDTO)),
                 dc_offset := dc_offset (setPagination ops (dto_pagination tableChangeDTO)
                                           (dto_dataCollection tableChangeDTO))\<rparr>)
   \<and> (\<forall>e. setFilters getPropertyInfoNN JSON_parse (dto_filters tableChangeDTO)
             (dto_fields tableChangeDTO) (dto_mainStore tableChangeDTO)
             (dto_dataCollection tableChangeDTO) = Inl e
      \<longrightarrow> handleTableChange getPropertyInfoNN JSON_parse ops load tableChangeDTO
            = \<lparr>run_error = Some e,
               run_store = dto_dataCollection tableChangeDTO,
               run_states = []\<rparr>)"
proof (intro conjI allI impI)
  fix dc1
  assume ret: "setFilters getPropertyInfoNN JSON_parse (dto_filters tableChangeDTO)
                 (dto_fields tableChangeDTO) (dto_mainStore tableChangeDTO)
                 (dto_dataCollection tableChangeDTO) = Inr dc1"
  let ?h = "handleTableChange getPropertyInfoNN JSON_parse ops load tableChangeDTO"
  let ?dc3 = "setPagination ops (dto_pagination tableChangeDTO)
                (setSorter (dto_sorter tableChangeDTO) (dto_defaultSort tableChangeDTO) dc1)"
  from ret show "run_error ?h = None"
    by (simp add: handleTableChange_def Let_def)
  from ret show "run_states ?h
      = [dc1, setSorter (dto_sorter tableChangeDTO) (dto_defaultSort tableChangeDTO) dc1,
         ?dc3, load ?dc3]"
    by (simp add: handleTableChange_def Let_def)
  from ret show "run_store ?h = load ?dc3"
    by (simp add: handleTableChange_def Let_def)
  from setFilters_frame [OF ret]
  have "dc1 = (dto_dataCollection tableChangeDTO)\<lparr>dc_filter := dc_filter dc1\<rparr>" .
  then have "?dc3 = setPagination ops (dto_pagination tableChangeDTO)
                      (setSorter (dto_sorter tableChangeDTO) (dto_defaultSort tableChangeDTO)
                         ((dto_dataCollection tableChangeDTO)\<lparr>dc_filter := dc_filter dc1\<rparr>))"
    by simp
  then show "?dc3 = (dto_dataCollection tableChangeDTO)
                \<lparr>dc_filter := dc_filter dc1,
                 dc_sort := dc_sort (setSorter (dto_sorter tableChangeDTO)
                                       (dto_defaultSort tableChangeDTO)
                                       (dto_dataCollection tableChangeDTO)),
                 dc_limit := dc_limit (setPagination ops (dto_pagination tableChangeDTO)
                                         (dto_dataCollection tableChangeDTO)),
                 dc_offset := dc_offset (setPagination ops (dto_pagination tableChangeDTO)
                                           (dto_dataCollection tableChangeDTO))\<rparr>"
    by (simp only: setSorter_setPagination_after_setFilters)
next
  fix e
  assume "setFilters getPropertyInfoNN JSON_parse (dto_filters tableChangeDTO)
            (dto_fields tableChangeDTO) (dto_mainStore tableChangeDTO)
            (dto_dataCollection tableChangeDTO) = Inl e"
  then show "handleTableChange getPropertyInfoNN JSON_parse ops load tableChangeDTO
            = \<lparr>run_error = Some e,
               run_store = dto_dataCollection tableChangeDTO,
               run_states = []\<rparr>"
    by (simp add: handleTableChange_def)
qed

theorem handleTableChange_sequence_witness:
  "handleTableChange exampleGetPropertyInfoNN exampleJSON_parse exampleNumberOps exampleLoad
     \<lparr>dto_pagination = Some \<lparr>pg_pageSize = Some (Num 20), pg_current = Some (Num 2)\<rparr>,
      dto_filters = Some (objectLiteral [''model'' \<mapsto> Values [jsonAudi]]),
      dto_sorter = Some \<lparr>srt_field = ''garage._instanceName'', srt_order = Some descend\<rparr>,
      dto_defaultSort = ''+model'', dto_fields = [''model'', ''garage''],
      dto_mainStore = exampleMainStore, dto_dataCollection = exampleCollection\<rparr>
   = \<lparr>run_error = None,
      run_store =
        exampleCollection
          \<lparr>dc_filter := Some \<lparr>ef_conditions = [PlainCondition (conditionAudi ''model'')]\<rparr>,
           dc_sort := Some ''-garage'', dc_limit := Some (Num 20),
           dc_offset := Some (Num 20), st_loads := 1\<rparr>,
      run_states =
        [exampleCollection
           \<lparr>dc_filter := Some \<lparr>ef_conditions = [PlainCondition (conditionAudi ''model'')]\<rparr>\<rparr>,
         exampleCollection
           \<lparr>dc_filter := Some \<lparr>ef_conditions = [PlainCondition (conditionAudi ''model'')]\<rparr>,
            dc_sort := Some ''-garage''\<rparr>,
         exampleCollection
           \<lparr>dc_filter := Some \<lparr>ef_conditions = [PlainCondition (conditionAudi ''model'')]\<rparr>,
            dc_sort := Some ''-garage'', dc_limit := Some (Num 20),
            dc_offset := Some (Num 20)\<rparr>,
         exampleCollection
           \<lparr>dc_filter := Some \<lparr>ef_conditions = [PlainCondition (conditionAudi ''model'')]\<rparr>,
            dc_sort := Some ''-garage'', dc_limit := Some (Num 20),
            dc_offset := Some (Num 20), st_loads := 1\<rparr>]\<rparr>"
proof -
  let ?dto = "\<lparr>dto_pagination = Some \<lparr>pg_pageSize = Some (Num 20), pg_current = Some (Num 2)\<rparr>,
      dto_filters = Some (objectLiteral [''model'' \<mapsto> Values [jsonAudi]]),
      dto_sorter = Some \<lparr>srt_field = ''garage._instanceName'', srt_order = Some descend\<rparr>,
      dto_defaultSort = ''+model'', dto_fields = [''model'', ''garage''],
      dto_mainStore = exampleMainStore, dto_dataCollection = exampleCollection\<rparr>"
  let ?dc1 = "exampleCollection
                \<lparr>dc_filter := Some \<lparr>ef_conditions = [PlainCondition (conditionAudi ''model'')]\<rparr>\<rparr>"
  let ?h = "handleTableChange exampleGetPropertyInfoNN exampleJSON_parse exampleNumberOps
              exampleLoad ?dto"
  have ret: "setFilters exampleGetPropertyInfoNN exampleJSON_parse (dto_filters ?dto)
               (dto_fields ?dto) (dto_mainStore ?dto) (dto_dataCollection ?dto) = Inr ?dc1"
    by (simp add: setFilters_def setFilters_callback_def pushConditions_def hasOwnProperty_def
          canCallHasOwnProperty_def objectLiteral_def
          exampleGetPropertyInfoNN_def exampleMainStore_def exampleMetadata_def
          exampleCollection_def
          exampleJSON_parse_def jsonAudi_def jsonBMW_def jsonInterval_def valueAudi_def
          valueBMW_def valueInterval_def conditionAudi_def)
  from handleTableChange_sequence
         [where getPropertyInfoNN = exampleGetPropertyInfoNN
            and JSON_parse = exampleJSON_parse and ops = exampleNumberOps
            and load = exampleLoad and tableChangeDTO = ?dto] ret
  have steps: "run_error ?h = None
     \<and> run_states ?h
          = [?dc1, setSorter (dto_sorter ?dto) (dto_defaultSort ?dto) ?dc1,
             setPagination exampleNumberOps (dto_pagination ?dto)
               (setSorter (dto_sorter ?dto) (dto_defaultSort ?dto) ?dc1),
             exampleLoad (setPagination exampleNumberOps (dto_pagination ?dto)
               (setSorter (dto_sorter ?dto) (dto_defaultSort ?dto) ?dc1))]
     \<and> run_store ?h
          = exampleLoad (setPagination exampleNumberOps (dto_pagination ?dto)
               (setSorter (dto_sorter ?dto) (dto_defaultSort ?dto) ?dc1))"
    by blast
  have "?h = \<lparr>run_error = run_error ?h, run_store = run_store ?h, run_states = run_states ?h\<rparr>"
    by simp
  with steps show ?thesis
    by (simp add: setSorter_def setPagination_def num_truthy_def endsWith_def substring_def
          exampleNumberOps_def exampleCollection_def exampleLoad_def)
qed

text \<open>
  With a filter text that is not JSON, \<^verbatim>\<open>setFilters\<close> throws: the run ends with that
  error, the collection goes through no state and keeps its sort, limit, offset and
  load count.
\<close>

theorem handleTableChange_throws_counterexample:
  "handleTableChange exampleGetPropertyInfoNN exampleJSON_parse exampleNumberOps exampleLoad
     \<lparr>dto_pagination = Some \<lparr>pg_pageSize = Some (Num 20), pg_current = Some (Num 2)\<rparr>,
      dto_filters = Some (objectLiteral [''model'' \<mapsto> Values [''oops'']]),
      dto_sorter = Some \<lparr>srt_field = ''garage._instanceName'', srt_order = Some descend\<rparr>,
      dto_defaultSort = ''+model'', dto_fields = [''model'', ''garage''],
      dto_mainStore = exampleMainStore, dto_dataCollection = exampleCollection\<rparr>
   = \<lparr>run_error = Some SyntaxError, run_store = exampleCollection, run_states = []\<rparr>
   \<and> st_loads exampleCollection = 0"
  by (simp add: handleTableChange_def setFilters_def setFilters_callback_def
        pushConditions_def hasOwnProperty_def canCallHasOwnProperty_def objectLiteral_def
        exampleGetPropertyInfoNN_def exampleMainStore_def exampleMetadata_def
        exampleCollection_def
        exampleJSON_parse_def jsonAudi_def jsonBMW_def jsonInterval_def valueAudi_def
        valueBMW_def valueInterval_def)

section \<open>From an entity filter to table filters\<close>

lemma entityFilterToTableFilters_callback_plain:
  "entityFilterToTableFilters_callback str tf (PlainCondition c)
     = Inr (assignArray tf (cond_property c) [str (conditionJSON c)])"
  by (simp add: entityFilterToTableFilters_callback_def)


lemma forEach_plain:
  "forEach (entityFilterToTableFilters_callback str) (map PlainCondition cs) tf
     = Inr (foldl (\<lambda>t c. assignArray t (cond_property c) [str (conditionJSON c)]) tf cs)"
  by (induction cs arbitrary: tf) (simp_all add: entityFilterToTableFilters_callback_plain)

text \<open>
  Assignments in a row, on an object that has no own \<^verbatim>\<open>__proto__\<close> and inherits the
  accessor: each key other than \<^verbatim>\<open>__proto__\<close> holds what was assigned to it last, and the
  prototype is the array assigned to \<^verbatim>\<open>__proto__\<close> last.
\<close>

lemma foldl_assignArray:
  assumes "tf_own tf ''__proto__'' = None" and "tf_proto tf \<noteq> NullPrototype"
  shows "foldl (\<lambda>t c. assignArray t (f c) [g c]) tf cs
           = \<lparr>tf_own = (\<lambda>p. if p = ''__proto__'' then None
                             else (case find (\<lambda>c. f c = p) (rev cs) of
                                     None \<Rightarrow> tf_own tf p
                                   | Some c \<Rightarrow> Some (Values [g c]))),
              tf_proto = (case find (\<lambda>c. f c = ''__proto__'') (rev cs) of
                            None \<Rightarrow> tf_proto tf
                          | Some c \<Rightarrow> ArrayPrototype [g c])\<rparr>"
proof (induction cs rule: rev_induct)
  case Nil
  from assms show ?case
    by (cases tf) (auto simp: fun_eq_iff)
next
  case (snoc c cs)
  let ?R = "\<lparr>tf_own = (\<lambda>p. if p = ''__proto__'' then None
                             else (case find (\<lambda>c. f c = p) (rev cs) of
                                     None \<Rightarrow> tf_own tf p
                                   | Some c \<Rightarrow> Some (Values [g c]))),
              tf_proto = (case find (\<lambda>c. f c = ''__proto__'') (rev cs) of
                            None \<Rightarrow> tf_proto tf
                          | Some c \<Rightarrow> ArrayPrototype [g c])\<rparr>"
  have "foldl (\<lambda>t c. assignArray t (f c) [g c]) tf (cs @ [c]) = assignArray ?R (f c) [g c]"
    by (simp add: snoc.IH)
  also from assms have "assignArray ?R (f c) [g c]
      = \<lparr>tf_own = (\<lambda>p. if p = ''__proto__'' then None
                        else (case find (\<lambda>c. f c = p) (rev (cs @ [c])) of
                                None \<Rightarrow> tf_own tf p
                              | Some c \<Rightarrow> Some (Values [g c]))),
         tf_proto = (case find (\<lambda>c. f c = ''__proto__'') (rev (cs @ [c])) of
                       None \<Rightarrow> tf_proto tf
                     | Some c \<Rightarrow> ArrayPrototype [g c])\<rparr>"
    by (auto simp: assignArray_def fun_eq_iff split: option.splits)
  finally show ?case .
qed

lemma entityFilterToTableFilters_plain:
  "entityFilterToTableFilters str \<lparr>ef_conditions = map PlainCondition cs\<rparr>
     = Inr \<lparr>tf_own = (\<lambda>p. if p = ''__proto__'' then None
                           else map_option (\<lambda>c. Values [str (conditionJSON c)])
                                  (find (\<lambda>c. cond_property c = p) (rev cs))),
            tf_proto = (case find (\<lambda>c. cond_property c = ''__proto__'') (rev cs) of
                          None \<Rightarrow> ObjectPrototype
                        | Some c \<Rightarrow> ArrayPrototype [str (conditionJSON c)])\<rparr>"
  by (simp add: entityFilterToTableFilters_def forEach_plain foldl_assignArray
        objectLiteral_def fun_eq_iff split: option.splits)






section \<open>The round trip through table filters\<close>

lemma setFilters_callback_roundTrips:
  assumes call: "canCallHasOwnProperty tf"
    and entry: "tf_own tf (cond_property c) = Some (Values [str (conditionJSON c)])"
    and info: "g (cond_property c) (dc_entityName dc) (ms_metadata ms) = Inr info"
    and nonenum: "mpi_attributeType info \<noteq> ENUM"
    and op: "cond_operator c \<noteq> JStr ''inInterval''"
    and rt: "roundTrips j str c"
  shows "setFilters_callback g j tf ms dc acc (cond_property c)
           = Inr (Some (pushConditions
                          (case acc of None \<Rightarrow> \<lparr>ef_conditions = []\<rparr> | Some f \<Rightarrow> f) [c]))"
proof -
  from rt obtain parsed where
    parsed: "j (str (conditionJSON c)) = Inr parsed"
    and read: "destructure2 parsed ''operator'' ''value'' = Inr (cond_operator c, cond_value c)"
    by (auto simp: roundTrips_def split: sum.splits)
  from call entry info nonenum op parsed read show ?thesis
    by (cases c) (simp add: setFilters_callback_def hasOwnProperty_def)
qed

lemma pushConditions_Cons:
  "pushConditions (pushConditions f [c]) cs = pushConditions f (c # cs)"
  by (simp add: pushConditions_def)

lemma forEach_roundTrips:
  assumes "canCallHasOwnProperty tf"
    and "\<forall>c\<in>set cs. tf_own tf (cond_property c) = Some (Values [str (conditionJSON c)])"
    and "\<forall>c\<in>set cs. \<exists>info. g (cond_property c) (dc_entityName dc) (ms_metadata ms) = Inr info
                          \<and> mpi_attributeType info \<noteq> ENUM"
    and "\<forall>c\<in>set cs. cond_operator c \<noteq> JStr ''inInterval''"
    and "\<forall>c\<in>set cs. roundTrips j str c"
  shows "forEach (setFilters_callback g j tf ms dc) (map cond_property cs) acc
           = Inr (if cs = [] then acc
                  else Some (pushConditions
                               (case acc of None \<Rightarrow> \<lparr>ef_conditions = []\<rparr> | Some f \<Rightarrow> f)
                               cs))"
  using assms
proof (induction cs arbitrary: acc)
  case Nil
  then show ?case by simp
next
  case (Cons c cs)
  let ?ef = "case acc of None \<Rightarrow> \<lparr>ef_conditions = []\<rparr> | Some f \<Rightarrow> f"
  from Cons.prems obtain info where
    info: "g (cond_property c) (dc_entityName dc) (ms_metadata ms) = Inr info"
    and nonenum: "mpi_attributeType info \<noteq> ENUM"
    by auto
  from Cons.prems have
    step: "setFilters_callback g j tf ms dc acc (cond_property c)
             = Inr (Some (pushConditions ?ef [c]))"
    by (intro setFilters_callback_roundTrips [where info = info]) (auto simp: info nonenum)
  from Cons.prems have
    rest: "forEach (setFilters_callback g j tf ms dc) (map cond_property cs)
             (Some (pushConditions ?ef [c]))
           = Inr (if cs = [] then Some (pushConditions ?ef [c])
                  else Some (pushConditions (pushConditions ?ef [c]) cs))"
    by (subst Cons.IH) simp_all
  show ?case
    by (simp add: step rest pushConditions_Cons)
qed

lemma find_distinct:
  "distinct (map f cs) \<Longrightarrow> c \<in> set cs \<Longrightarrow> find (\<lambda>x. f x = f c) cs = Some c"
  by (induction cs) (auto simp: image_iff)

lemma find_absent:
  "\<forall>c\<in>set cs. f c \<noteq> k \<Longrightarrow> find (\<lambda>c. f c = k) (rev cs) = None"
  by (simp add: find_None_iff)

text \<open>
  Claim C2, amended. Take plain conditions over pairwise distinct properties, none of
  them named \<^verbatim>\<open>__proto__\<close> or \<^verbatim>\<open>hasOwnProperty\<close>, each of a non-\<^verbatim>\<open>ENUM\<close> attribute type,
  with an operator other than \<^verbatim>\<open>inInterval\<close>, and each surviving the trip through JSON
  text. Then \<^verbatim>\<open>entityFilterToTableFilters\<close> returns table filters, and \<^verbatim>\<open>setFilters\<close> on
  them, with \<^verbatim>\<open>fields\<close> listing the properties in the same order, returns normally and
  sets the collection's filter: to an entity filter with exactly the original
  conditions, in their order, when there is at least one condition, and to
  \<^verbatim>\<open>undefined\<close> when there is none.
\<close>

theorem setFilters_entityFilterToTableFilters_roundtrip:
  assumes dist: "distinct (map cond_property cs)"
    and names: "\<forall>c\<in>set cs. cond_property c \<noteq> ''__proto__''
                            \<and> cond_property c \<noteq> ''hasOwnProperty''"
    and types: "\<forall>c\<in>set cs. \<exists>info.
                  getPropertyInfoNN (cond_property c) (dc_entityName dataCollection)
                    (ms_metadata mainStore) = Inr info
                  \<and> mpi_attributeType info \<noteq> ENUM"
    and ops: "\<forall>c\<in>set cs. cond_operator c \<noteq> JStr ''inInterval''"
    and rt: "\<forall>c\<in>set cs. roundTrips JSON_parse JSON_stringify c"
  shows "\<exists>tableFilters.
           entityFilterToTableFilters JSON_stringify \<lparr>ef_conditions = map PlainCondition cs\<rparr>
             = Inr tableFilters
           \<and> setFilters getPropertyInfoNN JSON_parse (Some tableFilters) (map cond_property cs)
               mainStore dataCollection
             = Inr (dataCollection
                     \<lparr>dc_filter := (if cs = [] then None
                                    else Some \<lparr>ef_conditions = map PlainCondition cs\<rparr>)\<rparr>)"
proof -
  let ?tf = "\<lparr>tf_own = (\<lambda>p. if p = ''__proto__'' then None
                           else map_option (\<lambda>c. Values [JSON_stringify (conditionJSON c)])
                                  (find (\<lambda>c. cond_property c = p) (rev cs))),
              tf_proto = (case find (\<lambda>c. cond_property c = ''__proto__'') (rev cs) of
                            None \<Rightarrow> ObjectPrototype
                          | Some c \<Rightarrow> ArrayPrototype [JSON_stringify (conditionJSON c)])\<rparr>"
  have conv: "entityFilterToTableFilters JSON_stringify
                \<lparr>ef_conditions = map PlainCondition cs\<rparr> = Inr ?tf"
    by (rule entityFilterToTableFilters_plain)
  from names have "find (\<lambda>c. cond_property c = ''__proto__'') (rev cs) = None"
    and "find (\<lambda>c. cond_property c = ''hasOwnProperty'') (rev cs) = None"
    by (simp_all add: find_absent)
  then have call: "canCallHasOwnProperty ?tf"
    by (simp add: canCallHasOwnProperty_def)
  have entries: "\<forall>c\<in>set cs. tf_own ?tf (cond_property c)
                    = Some (Values [JSON_stringify (conditionJSON c)])"
  proof
    fix c assume c: "c \<in> set cs"
    with dist have "find (\<lambda>x. cond_property x = cond_property c) (rev cs) = Some c"
      by (intro find_distinct) (simp_all add: rev_map [symmetric])
    with names c
    show "tf_own ?tf (cond_property c) = Some (Values [JSON_stringify (conditionJSON c)])"
      by simp
  qed
  have "forEach (setFilters_callback getPropertyInfoNN JSON_parse ?tf mainStore dataCollection)
          (map cond_property cs) None
        = Inr (if cs = [] then None
               else Some (pushConditions \<lparr>ef_conditions = []\<rparr> cs))"
    using call entries types ops rt
    by (subst forEach_roundTrips [where str = JSON_stringify]) simp_all
  then have "setFilters getPropertyInfoNN JSON_parse (Some ?tf) (map cond_property cs)
               mainStore dataCollection
             = Inr (dataCollection
                     \<lparr>dc_filter := (if cs = [] then None
                                    else Some \<lparr>ef_conditions = map PlainCondition cs\<rparr>)\<rparr>)"
    by (simp add: setFilters_def pushConditions_def)
  with conv show ?thesis by blast
qed

theorem setFilters_entityFilterToTableFilters_roundtrip_witness:
  "\<exists>tableFilters.
     entityFilterToTableFilters exampleJSON_stringify
       \<lparr>ef_conditions = [PlainCondition (conditionAudi ''model''),
                         PlainCondition (conditionBMW ''garage'')]\<rparr> = Inr tableFilters
     \<and> setFilters exampleGetPropertyInfoNN exampleJSON_parse (Some tableFilters)
         [''model'', ''garage''] exampleMainStore exampleCollection
       = Inr (exampleCollection
               \<lparr>dc_filter := Some \<lparr>ef_conditions = [PlainCondition (conditionAudi ''model''),
                                                     PlainCondition (conditionBMW ''garage'')]\<rparr>\<rparr>)"
proof -
  let ?cs = "[conditionAudi ''model'', conditionBMW ''garage'']"
  have dist: "distinct (map cond_property ?cs)"
    by (simp add: conditionAudi_def conditionBMW_def)
  have names: "\<forall>c\<in>set ?cs. cond_property c \<noteq> ''__proto__''
                            \<and> cond_property c \<noteq> ''hasOwnProperty''"
    by (simp add: conditionAudi_def conditionBMW_def)
  have types: "\<forall>c\<in>set ?cs. \<exists>info.
                  exampleGetPropertyInfoNN (cond_property c) (dc_entityName exampleCollection)
                    (ms_metadata exampleMainStore) = Inr info
                  \<and> mpi_attributeType info \<noteq> ENUM"
    by (simp add: conditionAudi_def conditionBMW_def
          exampleGetPropertyInfoNN_def exampleMainStore_def exampleMetadata_def
          exampleCollection_def)
  have ops: "\<forall>c\<in>set ?cs. cond_operator c \<noteq> JStr ''inInterval''"
    by (simp add: conditionAudi_def conditionBMW_def)
  have rt: "\<forall>c\<in>set ?cs. roundTrips exampleJSON_parse exampleJSON_stringify c"
    by (simp add: roundTrips_def conditionJSON_def conditionAudi_def conditionBMW_def
          exampleJSON_parse_def exampleJSON_stringify_def jsonAudi_def jsonBMW_def jsonInterval_def valueAudi_def
          valueBMW_def valueInterval_def)
  from setFilters_entityFilterToTableFilters_roundtrip
         [where cs = ?cs and getPropertyInfoNN = exampleGetPropertyInfoNN
            and JSON_parse = exampleJSON_parse and JSON_stringify = exampleJSON_stringify
            and mainStore = exampleMainStore and dataCollection = exampleCollection]
       dist names types ops rt
  have "\<exists>tableFilters.
          entityFilterToTableFilters exampleJSON_stringify
            \<lparr>ef_conditions = map PlainCondition ?cs\<rparr> = Inr tableFilters
          \<and> setFilters exampleGetPropertyInfoNN exampleJSON_parse (Some tableFilters)
              (map cond_property ?cs) exampleMainStore exampleCollection
            = Inr (exampleCollection
                    \<lparr>dc_filter := (if ?cs = [] then None
                                   else Some \<lparr>ef_conditions = map PlainCondition ?cs\<rparr>)\<rparr>)"
    by blast
  then show ?thesis
    by (simp add: conditionAudi_def conditionBMW_def)
qed

text \<open>
  Three filters on which the round trip does not give back the conditions. The filter
  with no condition: its table filters are empty, and \<^verbatim>\<open>setFilters\<close> on them stores
  \<^verbatim>\<open>undefined\<close>, not an entity filter with an empty list of conditions. A condition
  about the attribute \<^verbatim>\<open>hasOwnProperty\<close>: the table filters hold that key, and
  \<^verbatim>\<open>setFilters\<close> throws when it calls it. A condition about the attribute \<^verbatim>\<open>__proto__\<close>:
  the table filters have no own key, and \<^verbatim>\<open>setFilters\<close> stores \<^verbatim>\<open>undefined\<close>. Both
  attributes are string attributes of the example entity, and the condition survives
  the trip through JSON text.
\<close>

theorem setFilters_entityFilterToTableFilters_empty_counterexample:
  "entityFilterToTableFilters exampleJSON_stringify \<lparr>ef_conditions = []\<rparr>
     = Inr (objectLiteral Map.empty)
   \<and> setFilters exampleGetPropertyInfoNN exampleJSON_parse (Some (objectLiteral Map.empty)) []
        exampleMainStore exampleCollection
     = Inr (exampleCollection\<lparr>dc_filter := None\<rparr>)
   \<and> dc_filter (exampleCollection\<lparr>dc_filter := None\<rparr>) \<noteq> Some \<lparr>ef_conditions = []\<rparr>
   \<and> entityFilterToTableFilters exampleJSON_stringify
        \<lparr>ef_conditions = [PlainCondition (conditionAudi ''hasOwnProperty'')]\<rparr>
     = Inr (objectLiteral [''hasOwnProperty'' \<mapsto> Values [jsonAudi]])
   \<and> setFilters exampleGetPropertyInfoNN exampleJSON_parse
        (Some (objectLiteral [''hasOwnProperty'' \<mapsto> Values [jsonAudi]])) [''hasOwnProperty'']
        exampleMainStore exampleCollection
     = Inl TypeError
   \<and> entityFilterToTableFilters exampleJSON_stringify
        \<lparr>ef_conditions = [PlainCondition (conditionAudi ''__proto__'')]\<rparr>
     = Inr \<lparr>tf_own = Map.empty, tf_proto = ArrayPrototype [jsonAudi]\<rparr>
   \<and> setFilters exampleGetPropertyInfoNN exampleJSON_parse
        (Some \<lparr>tf_own = Map.empty, tf_proto = ArrayPrototype [jsonAudi]\<rparr>) [''__proto__'']
        exampleMainStore exampleCollection
     = Inr (exampleCollection\<lparr>dc_filter := None\<rparr>)
   \<and> exampleGetPropertyInfoNN ''hasOwnProperty'' (dc_entityName exampleCollection)
        (ms_metadata exampleMainStore)
     = Inr \<lparr>mpi_name = ''hasOwnProperty'', mpi_type = ''string'',
            mpi_attributeType = DATATYPE\<rparr>
   \<and> exampleGetPropertyInfoNN ''__proto__'' (dc_entityName exampleCollection)
        (ms_metadata exampleMainStore)
     = Inr \<lparr>mpi_name = ''__proto__'', mpi_type = ''string'', mpi_attributeType = DATATYPE\<rparr>
   \<and> roundTrips exampleJSON_parse exampleJSON_stringify (conditionAudi ''hasOwnProperty'')
   \<and> roundTrips exampleJSON_parse exampleJSON_stringify (conditionAudi ''__proto__'')"
  by (simp add: entityFilterToTableFilters_def entityFilterToTableFilters_callback_def
        assignArray_def objectLiteral_def setFilters_def setFilters_callback_def
        hasOwnProperty_def canCallHasOwnProperty_def roundTrips_def
        conditionJSON_def conditionAudi_def
        exampleGetPropertyInfoNN_def exampleMainStore_def exampleMetadata_def
        exampleCollection_def
        exampleJSON_parse_def exampleJSON_stringify_def jsonAudi_def jsonBMW_def
        jsonInterval_def valueAudi_def valueBMW_def valueInterval_def)

section \<open>Columns\<close>



end
